(* ===== verification/Prelude.thy ===== *)
theory Prelude
  imports Main
begin

text \<open>
  Shared vocabulary of the development: the names of the model's types, the
  collections of facts the component theories add to, and generic lemmas on
  lists and options that the component proofs use through \<open>simp\<close>.
  A Python \<open>str\<close> is modelled as a HOL \<open>string\<close> (a list of \<open>char\<close>, each
  read as a code point below 256); Python's \<open>None\<close> of an optional value is
  \<open>None\<close> of an \<open>option\<close>; an exception is the \<open>Inl\<close> side of a sum.
\<close>

type_synonym pystr = string
type_synonym path = string

text \<open>An exception's message, as \<open>str(e)\<close> renders it.\<close>
type_synonym exn_msg = string

named_theorems py_defs
  \<open>definitions of the model of Python's string built-ins, unfolded to evaluate them\<close>
named_theorems scan_simps
  \<open>characteristic equations of the response parser's line scanner\<close>

subsection \<open>Generic lemmas\<close>

lemma take_length_eq_iff_prefix:
  "(take (length p) s = p) \<longleftrightarrow> (\<exists>r. s = p @ r)"
proof
  assume "take (length p) s = p"
  then have "s = p @ drop (length p) s"
    by (metis append_take_drop_id)
  then show "\<exists>r. s = p @ r" by blast
next
  assume "\<exists>r. s = p @ r"
  then show "take (length p) s = p" by auto
qed

lemma take_length_append_self [simp]:
  "take (length p) (p @ r) = p"
  by simp

lemma foldl_const_id:
  "(\<And>x. x \<in> set xs \<Longrightarrow> f s x = s) \<Longrightarrow> foldl f s xs = s"
  by (induction xs) auto

lemma dropWhile_idem [simp]: "dropWhile P (dropWhile P xs) = dropWhile P xs"
  by (induction xs) auto

lemma dropWhile_hd: "dropWhile P xs = [] \<or> \<not> P (hd (dropWhile P xs))"
  by (induction xs) auto

lemma map_option_eq_Some_iff:
  "(map_option f x = Some y) \<longleftrightarrow> (\<exists>z. x = Some z \<and> y = f z)"
  by (cases x) auto

end
