(* ===== verification/PyStr.thy ===== *)
theory PyStr
  imports Prelude
begin

text \<open>
  The Python \<open>str\<close> built-ins that \<open>src/app/main.py\<close> calls, as executable HOL
  functions over \<open>string\<close>: \<open>isspace\<close> (through \<open>strip\<close> and \<open>split\<close>),
  \<open>strip\<close>, \<open>startswith\<close>, the operator \<open>in\<close>, \<open>upper\<close>, \<open>split()\<close>,
  \<open>splitlines()\<close>, \<open>join\<close> and \<open>replace\<close>. Each follows CPython's algorithm on
  code points below 256 (the range a HOL \<open>char\<close> covers). The lemmas state what
  the parser's proofs need of them: prefix and substring characterisations, that
  \<open>strip\<close> is idempotent, and that \<open>splitlines\<close> inverts \<open>"\n".join\<close> on
  lines without line breaks.
\<close>

subsection \<open>Character classes\<close>

text \<open>\<open>str.isspace\<close> on one code point below 256 (CPython's \<open>Py_UNICODE_ISSPACE\<close>).\<close>

definition py_isspace :: "char \<Rightarrow> bool" where
  "py_isspace c \<longleftrightarrow> (of_char c :: nat) \<in> set [9, 10, 11, 12, 13, 28, 29, 30, 31, 32, 133, 160]"

text \<open>The line boundaries of \<open>str.splitlines\<close> below 256: \<open>\n\<close>, \<open>\v\<close>,
  \<open>\f\<close>, \<open>\r\<close>, \<open>\x1c\<close>, \<open>\x1d\<close>, \<open>\x1e\<close>, \<open>\x85\<close>.\<close>

definition py_is_linebreak :: "char \<Rightarrow> bool" where
  "py_is_linebreak c \<longleftrightarrow> (of_char c :: nat) \<in> set [10, 11, 12, 13, 28, 29, 30, 133]"

text \<open>\<open>str.upper\<close> and \<open>str.lower\<close> on one code point: ASCII and the Latin-1
  letters. The three Latin-1 code points whose case partner lies above 255
  (\<open>\xb5\<close>, \<open>\xdf\<close>, \<open>\xff\<close>) are left unchanged.\<close>

definition py_upper_char :: "char \<Rightarrow> char" where
  "py_upper_char c =
     (let n = (of_char c :: nat)
      in if (97 \<le> n \<and> n \<le> 122) \<or> (224 \<le> n \<and> n \<le> 254 \<and> n \<noteq> 247)
         then char_of (n - 32) else c)"

definition py_lower_char :: "char \<Rightarrow> char" where
  "py_lower_char c =
     (let n = (of_char c :: nat)
      in if (65 \<le> n \<and> n \<le> 90) \<or> (192 \<le> n \<and> n \<le> 222 \<and> n \<noteq> 215)
         then char_of (n + 32) else c)"

definition py_upper :: "string \<Rightarrow> string" where
  "py_upper s = map py_upper_char s"

subsection \<open>strip, startswith, in\<close>

definition py_lstrip :: "string \<Rightarrow> string" where
  "py_lstrip s = dropWhile py_isspace s"

definition py_rstrip :: "string \<Rightarrow> string" where
  "py_rstrip s = rev (dropWhile py_isspace (rev s))"

definition py_strip :: "string \<Rightarrow> string" where
  "py_strip s = py_rstrip (py_lstrip s)"

definition py_startswith :: "string \<Rightarrow> string \<Rightarrow> bool" where
  "py_startswith s p \<longleftrightarrow> take (length p) s = p"

text \<open>\<open>p in s\<close>: some suffix of \<open>s\<close> starts with \<open>p\<close>.\<close>

fun py_in :: "string \<Rightarrow> string \<Rightarrow> bool" where
  "py_in p [] \<longleftrightarrow> p = []"
| "py_in p (c # s) \<longleftrightarrow> py_startswith (c # s) p \<or> py_in p s"

subsection \<open>join, split, splitlines, replace\<close>

text \<open>\<open>sep.join(xs)\<close>.\<close>

fun py_join :: "string \<Rightarrow> string list \<Rightarrow> string" where
  "py_join sep [] = []"
| "py_join sep [x] = x"
| "py_join sep (x # y # zs) = x @ sep @ py_join sep (y # zs)"

definition nl :: string where
  "nl = [CHR 0x0A]"

text \<open>\<open>s.split()\<close> with no separator: maximal runs of non-space characters,
  scanned left to right with the current word kept reversed in \<open>cur\<close>.\<close>

fun split_ws :: "string \<Rightarrow> string \<Rightarrow> string list" where
  "split_ws cur [] = (if cur = [] then [] else [rev cur])"
| "split_ws cur (c # s) =
     (if py_isspace c
      then (if cur = [] then split_ws [] s else rev cur # split_ws [] s)
      else split_ws (c # cur) s)"

definition py_split :: "string \<Rightarrow> string list" where
  "py_split s = split_ws [] s"

text \<open>\<open>s.splitlines()\<close> as CPython's loop: take the line up to the next boundary,
  skip the boundary (\<open>\r\n\<close> counts as one), repeat until the string is used up.\<close>

fun skip_lf :: "string \<Rightarrow> string" where
  "skip_lf [] = []"
| "skip_lf (c # s) = (if c = CHR 0x0A then s else c # s)"

function py_splitlines :: "string \<Rightarrow> string list" where
  "py_splitlines s =
     (if s = [] then []
      else takeWhile (\<lambda>c. \<not> py_is_linebreak c) s #
           (case dropWhile (\<lambda>c. \<not> py_is_linebreak c) s of
              [] \<Rightarrow> []
            | c # r \<Rightarrow> py_splitlines (if c = CHR 0x0D then skip_lf r else r)))"
  by pat_completeness auto
termination
proof (relation "measure length")
  fix s c r
  assume "dropWhile (\<lambda>c. \<not> py_is_linebreak c) s = c # r"
  then have "length (c # r) \<le> length s"
    by (metis length_dropWhile_le)
  moreover have "length (skip_lf r) \<le> length r"
    by (cases r) auto
  ultimately show "((if c = CHR 0x0D then skip_lf r else r), s) \<in> measure length"
    by simp
qed simp

declare py_splitlines.simps [simp del]

text \<open>\<open>s.replace(old, new)\<close>: every non-overlapping occurrence, left to right;
  an empty \<open>old\<close> inserts \<open>new\<close> around every character, as CPython does.\<close>

function py_replace :: "string \<Rightarrow> string \<Rightarrow> string \<Rightarrow> string" where
  "py_replace old new s =
     (if old = [] then new @ concat (map (\<lambda>c. c # new) s)
      else (case s of
              [] \<Rightarrow> []
            | c # s' \<Rightarrow>
                if py_startswith s old then new @ py_replace old new (drop (length old) s)
                else c # py_replace old new s'))"
  by pat_completeness auto
termination
  by (relation "measure (\<lambda>(old, new, s). length s)") auto

declare py_replace.simps [simp del]

lemmas py_char_defs [py_defs] = py_isspace_def py_is_linebreak_def py_upper_char_def
  py_lower_char_def char_of_eq_iff
lemmas py_str_defs [py_defs] = py_upper_def py_lstrip_def py_rstrip_def py_strip_def
  py_startswith_def py_split_def nl_def

subsection \<open>Characterisations\<close>

lemma py_startswith_iff:
  "py_startswith s p \<longleftrightarrow> (\<exists>r. s = p @ r)"
  by (simp add: py_startswith_def take_length_eq_iff_prefix)

lemma py_startswith_append [simp]:
  "py_startswith (p @ r) p"
  by (simp add: py_startswith_def)

lemma py_in_iff:
  "py_in p s \<longleftrightarrow> (\<exists>a b. s = a @ p @ b)"
proof (induction s)
  case Nil
  then show ?case by simp
next
  case (Cons c s)
  show ?case
  proof
    assume "py_in p (c # s)"
    then consider "py_startswith (c # s) p" | "py_in p s" by auto
    then show "\<exists>a b. c # s = a @ p @ b"
    proof cases
      case 1
      then obtain r where "c # s = p @ r" by (auto simp: py_startswith_iff)
      then have "c # s = [] @ p @ r" by simp
      then show ?thesis by blast
    next
      case 2
      with Cons.IH obtain a b where "s = a @ p @ b" by blast
      then have "c # s = (c # a) @ p @ b" by simp
      then show ?thesis by blast
    qed
  next
    assume "\<exists>a b. c # s = a @ p @ b"
    then obtain a b where ab: "c # s = a @ p @ b" by blast
    show "py_in p (c # s)"
    proof (cases a)
      case Nil
      with ab have "py_startswith (c # s) p" by (simp add: py_startswith_def)
      then show ?thesis by simp
    next
      case (Cons a0 a')
      with ab have "s = a' @ p @ b" by simp
      then have "py_in p s" using Cons.IH by blast
      then show ?thesis by simp
    qed
  qed
qed
lemma py_in_append_right:
  "py_in p s \<Longrightarrow> py_in p (s @ t)"
  unfolding py_in_iff by (metis append.assoc)

lemma py_in_append_left:
  "py_in p s \<Longrightarrow> py_in p (t @ s)"
  unfolding py_in_iff by (metis append.assoc)

lemma py_lstrip_append_space:
  "(\<forall>c\<in>set w. py_isspace c) \<Longrightarrow> py_lstrip (w @ s) = py_lstrip s"
  by (induction w) (auto simp: py_lstrip_def)

lemma py_strip_append_space [simp]:
  "(\<forall>c\<in>set w. py_isspace c) \<Longrightarrow> py_strip (w @ s) = py_strip s"
  by (simp add: py_strip_def py_lstrip_append_space)

lemma py_lstrip_idem [simp]: "py_lstrip (py_lstrip s) = py_lstrip s"
  by (induction s) (auto simp: py_lstrip_def)
lemma py_rstrip_Cons:
  "py_rstrip (c # x) =
     (if \<forall>y\<in>set x. py_isspace y then (if py_isspace c then [] else [c]) else c # py_rstrip x)"
proof (cases "\<forall>y\<in>set x. py_isspace y")
  case True
  then have "dropWhile py_isspace (rev x @ [c]) = dropWhile py_isspace [c]"
    by (intro dropWhile_append2) simp
  with True show ?thesis by (simp add: py_rstrip_def)
next
  case False
  then obtain y where "y \<in> set (rev x)" "\<not> py_isspace y" by auto
  then have "dropWhile py_isspace (rev x @ [c]) = dropWhile py_isspace (rev x) @ [c]"
    by (rule dropWhile_append1)
  with False show ?thesis by (simp add: py_rstrip_def)
qed

lemma py_lstrip_rstrip_fixed:
  "py_lstrip x = x \<Longrightarrow> py_lstrip (py_rstrip x) = py_rstrip x"
proof (cases x)
  case Nil
  then show ?thesis by (simp add: py_rstrip_def py_lstrip_def)
next
  case (Cons c x')
  moreover assume "py_lstrip x = x"
  ultimately have "\<not> py_isspace c"
    by (metis dropWhile_eq_self_iff list.sel(1) list.simps(3) py_lstrip_def)
  with Cons show ?thesis
    by (simp add: py_rstrip_Cons py_lstrip_def)
qed

lemma py_rstrip_idem [simp]: "py_rstrip (py_rstrip s) = py_rstrip s"
  by (simp add: py_rstrip_def)

lemma py_strip_idem [simp]: "py_strip (py_strip s) = py_strip s"
proof -
  have "py_lstrip (py_rstrip (py_lstrip s)) = py_rstrip (py_lstrip s)"
    by (rule py_lstrip_rstrip_fixed) simp
  then show ?thesis
    by (simp add: py_strip_def)
qed
subsection \<open>splitlines and join\<close>

lemma py_join_Cons:
  "py_join sep (x # xs) = x @ (if xs = [] then [] else sep @ py_join sep xs)"
  by (cases xs) auto

lemma py_splitlines_Nil [simp]: "py_splitlines [] = []"
  by (simp add: py_splitlines.simps)

lemma py_is_linebreak_nl [simp]: "py_is_linebreak (CHR 0x0A)"
  by (simp add: py_is_linebreak_def)

lemma py_splitlines_line_nl:
  assumes "\<forall>c\<in>set l. \<not> py_is_linebreak c"
  shows "py_splitlines (l @ nl @ r) = l # py_splitlines r"
  unfolding nl_def
proof -
  have "takeWhile (\<lambda>c. \<not> py_is_linebreak c) (l @ [CHR 0x0A] @ r) = l"
    using assms by (simp add: takeWhile_append2)
  moreover have "dropWhile (\<lambda>c. \<not> py_is_linebreak c) (l @ [CHR 0x0A] @ r) = CHR 0x0A # r"
    using assms by (simp add: dropWhile_append2)
  ultimately show "py_splitlines (l @ [CHR 0x0A] @ r) = l # py_splitlines r"
    by (simp add: py_splitlines.simps [of "l @ CHR 0x0A # r"])
qed

lemma py_splitlines_line:
  assumes "\<forall>c\<in>set l. \<not> py_is_linebreak c" and "l \<noteq> []"
  shows "py_splitlines l = [l]"
proof -
  have t: "takeWhile (\<lambda>c. \<not> py_is_linebreak c) l = l"
    and d: "dropWhile (\<lambda>c. \<not> py_is_linebreak c) l = []"
    using assms(1) by simp_all
  show ?thesis
    by (simp only: py_splitlines.simps [of l] t d) (simp add: assms(2))
qed

lemma py_splitlines_join:
  assumes "\<forall>l\<in>set ls. \<forall>c\<in>set l. \<not> py_is_linebreak c"
    and "ls \<noteq> []" and "last ls \<noteq> []"
  shows "py_splitlines (py_join nl ls) = ls"
  using assms
proof (induction ls)
  case Nil
  then show ?case by simp
next
  case (Cons x xs)
  show ?case
  proof (cases xs)
    case Nil
    with Cons.prems show ?thesis by (simp add: py_splitlines_line)
  next
    case (Cons y zs)
    with Cons.prems have "py_splitlines (py_join nl xs) = xs"
      by (intro Cons.IH) auto
    with Cons.prems \<open>xs = y # zs\<close> show ?thesis
      by (simp add: py_splitlines_line_nl)
  qed
qed

lemma skip_lf_suffix: "\<exists>p. p @ skip_lf r = r"
  by (cases r) auto

lemma in_set_py_splitlines:
  "l \<in> set (py_splitlines s) \<Longrightarrow> \<exists>a b. s = a @ l @ b"
proof (induction s rule: py_splitlines.induct)
  case (1 s)
  let ?P = "\<lambda>c. \<not> py_is_linebreak c"
  have ne: "s \<noteq> []"
    using "1.prems" by auto
  have eq: "py_splitlines s = takeWhile ?P s #
      (case dropWhile ?P s of [] \<Rightarrow> []
       | c # r \<Rightarrow> py_splitlines (if c = CHR 0x0D then skip_lf r else r))"
    using ne by (simp add: py_splitlines.simps [of s])
  have td: "takeWhile ?P s @ dropWhile ?P s = s"
    by (rule takeWhile_dropWhile_id)
  show ?case
  proof (cases "dropWhile ?P s")
    case Nil
    have "l = takeWhile ?P s"
      using "1.prems" by (simp add: eq Nil)
    with td have "s = [] @ l @ []"
      unfolding Nil by (simp only: append_Nil append_Nil2)
    then show ?thesis by blast
  next
    case (Cons c r)
    let ?r = "if c = CHR 0x0D then skip_lf r else r"
    have "l = takeWhile ?P s \<or> l \<in> set (py_splitlines ?r)"
      using "1.prems" by (simp add: eq Cons)
    then show ?thesis
    proof
      assume "l = takeWhile ?P s"
      with td have "s = [] @ l @ dropWhile ?P s" by simp
      then show ?thesis by blast
    next
      assume l: "l \<in> set (py_splitlines ?r)"
      obtain a b where ab: "?r = a @ l @ b"
        using "1.IH" [OF ne Cons l] by blast
      have "\<exists>p. p @ ?r = r"
      proof (cases "c = CHR 0x0D")
        case True
        then show ?thesis using skip_lf_suffix [of r] by simp
      qed simp
      then obtain p where p: "p @ ?r = r" by blast
      from td Cons have "takeWhile ?P s @ c # r = s" by simp
      with p ab have "s = (takeWhile ?P s @ c # p @ a) @ l @ b" by simp
      then show ?thesis by blast
    qed
  qed
qed
subsection \<open>replace\<close>

lemma py_replace_Nil [simp]: "old \<noteq> [] \<Longrightarrow> py_replace old new [] = []"
  by (simp add: py_replace.simps)

lemma py_replace_startswith:
  assumes "old \<noteq> []" and "py_startswith s old"
  shows "py_replace old new s = new @ py_replace old new (drop (length old) s)"
proof (cases s)
  case Nil
  with assms show ?thesis by (simp add: py_startswith_def)
next
  case (Cons c s')
  with assms show ?thesis by (simp add: py_replace.simps [of old new "c # s'"])
qed

lemma py_replace_match:
  "old \<noteq> [] \<Longrightarrow> py_replace old new (old @ r) = new @ py_replace old new r"
  by (simp add: py_replace_startswith)

lemma py_replace_nomatch:
  "old \<noteq> [] \<Longrightarrow> \<not> py_startswith (c # s) old \<Longrightarrow>
   py_replace old new (c # s) = c # py_replace old new s"
  by (simp add: py_replace.simps [of old new "c # s"])

lemma py_replace_prefix_free:
  "old \<noteq> [] \<Longrightarrow> hd old \<notin> set w \<Longrightarrow> py_replace old new (w @ s) = w @ py_replace old new s"
proof (induction w)
  case Nil
  then show ?case by simp
next
  case (Cons c w)
  then have "\<not> py_startswith (c # w @ s) old"
    by (cases old) (auto simp: py_startswith_def)
  with Cons show ?case by (simp add: py_replace_nomatch)
qed

lemma py_replace_absent:
  "old \<noteq> [] \<Longrightarrow> \<not> py_in old s \<Longrightarrow> py_replace old new s = s"
proof (induction s)
  case Nil
  then show ?case by simp
next
  case (Cons c s)
  then show ?case by (simp add: py_replace_nomatch)
qed

end
