(* ===== verification/Regex_Search.thy ===== *)
theory Regex_Search
  imports PyStr
begin

text \<open>
  The fallback pass of \<open>parse_llm_response\<close> (\<open>src/app/main.py\<close>, lines 144-162)
  calls \<open>re.search\<close> with \<open>re.DOTALL | re.IGNORECASE\<close> on two pattern shapes
  built from literal headings \<open>a\<close> and \<open>b\<close>: \<open>a(.*?)b\<close> (lazy group between
  two literals) and \<open>a(.*)\<close> (greedy group to the end). With \<open>DOTALL\<close> the dot
  matches every character, so both are decided by case-insensitive literal search:
  \<open>ci_find p s\<close> is the first index where \<open>p\<close> occurs in \<open>s\<close> up to case.
  The engine tries start positions from the left; the first occurrence of \<open>a\<close> is
  the leftmost start that can succeed, and the lazy group stops at the first
  occurrence of \<open>b\<close> after it. \<open>re_search_between\<close> and \<open>re_search_rest\<close> return
  \<open>group(1)\<close>, or \<open>None\<close> where \<open>re.search\<close> returns \<open>None\<close>. The last
  section proves that these searches select the match that the regular-expression
  semantics prescribes (\<open>lazy_match\<close>, \<open>greedy_match\<close>).
\<close>

text \<open>Case-insensitive comparison of one pattern character with one text character,
  as \<open>IGNORECASE\<close> does for code points below 256: equal after \<open>lower\<close>.\<close>

fun ci_prefix :: "string \<Rightarrow> string \<Rightarrow> bool" where
  "ci_prefix [] s \<longleftrightarrow> True"
| "ci_prefix (p # ps) [] \<longleftrightarrow> False"
| "ci_prefix (p # ps) (c # cs) \<longleftrightarrow> py_lower_char p = py_lower_char c \<and> ci_prefix ps cs"

fun ci_find :: "string \<Rightarrow> string \<Rightarrow> nat option" where
  "ci_find p [] = (if p = [] then Some 0 else None)"
| "ci_find p (c # s) = (if ci_prefix p (c # s) then Some 0 else map_option Suc (ci_find p s))"

text \<open>\<open>re.search(a + "(.*?)" + b, s, re.DOTALL | re.IGNORECASE).group(1)\<close>.\<close>

definition re_search_between :: "string \<Rightarrow> string \<Rightarrow> string \<Rightarrow> string option" where
  "re_search_between a b s =
     (case ci_find a s of
        None \<Rightarrow> None
      | Some i \<Rightarrow> (let r = drop (i + length a) s in map_option (\<lambda>j. take j r) (ci_find b r)))"

text \<open>\<open>re.search(a + "(.*)", s, re.DOTALL | re.IGNORECASE).group(1)\<close>.\<close>

definition re_search_rest :: "string \<Rightarrow> string \<Rightarrow> string option" where
  "re_search_rest a s = map_option (\<lambda>i. drop (i + length a) s) (ci_find a s)"

subsection \<open>The matching semantics of the two patterns\<close>

text \<open>What \<open>re.search\<close> promises for \<open>a(.*?)b\<close>: among the matches (a start \<open>k\<close>
  where \<open>a\<close> occurs up to case, then a group of \<open>n\<close> characters, then \<open>b\<close>), the
  one with the leftmost start, and at that start the shortest group. For \<open>a(.*)\<close>
  the leftmost start and the longest group.\<close>

definition lazy_match :: "string \<Rightarrow> string \<Rightarrow> string \<Rightarrow> nat \<Rightarrow> nat \<Rightarrow> bool" where
  "lazy_match a b s k n \<longleftrightarrow>
     k + length a + n \<le> length s \<and> ci_prefix a (drop k s) \<and> ci_prefix b (drop (k + length a + n) s)"

definition greedy_match :: "string \<Rightarrow> string \<Rightarrow> nat \<Rightarrow> nat \<Rightarrow> bool" where
  "greedy_match a s k n \<longleftrightarrow> k + length a + n \<le> length s \<and> ci_prefix a (drop k s)"

subsection \<open>What the search finds\<close>

lemma ci_prefix_refl [simp]: "ci_prefix p (p @ r)"
  by (induction p) auto

lemma ci_find_None_iff:
  "ci_find p s = None \<longleftrightarrow> (\<forall>k \<le> length s. \<not> ci_prefix p (drop k s))"
proof (induction s)
  case Nil
  then show ?case by (cases p) auto
next
  case (Cons c s)
  have "(\<forall>k \<le> length (c # s). \<not> ci_prefix p (drop k (c # s))) \<longleftrightarrow>
        \<not> ci_prefix p (c # s) \<and> (\<forall>k \<le> length s. \<not> ci_prefix p (drop k s))"
    by (simp only: length_Cons less_Suc_eq_le [symmetric] All_less_Suc2) simp
  with Cons show ?case by simp
qed

lemma ci_find_occurrence:
  "py_in p s \<Longrightarrow> ci_find p s \<noteq> None"
proof -
  assume "py_in p s"
  then obtain a b where "s = a @ p @ b" by (auto simp: py_in_iff)
  then have "ci_prefix p (drop (length a) s)" by simp
  moreover have "length a \<le> length s" using \<open>s = a @ p @ b\<close> by simp
  ultimately show "ci_find p s \<noteq> None" by (auto simp: ci_find_None_iff)
qed

lemma re_search_between_None:
  "ci_find a s = None \<Longrightarrow> re_search_between a b s = None"
  by (simp add: re_search_between_def)

lemma re_search_rest_None:
  "ci_find a s = None \<Longrightarrow> re_search_rest a s = None"
  by (simp add: re_search_rest_def)

subsection \<open>The search meets the semantics\<close>

lemma ci_prefix_Nil_iff [simp]: "ci_prefix p [] \<longleftrightarrow> p = []"
  by (cases p) auto

lemma ci_prefix_length: "ci_prefix p s \<Longrightarrow> length p \<le> length s"
  by (induction p s rule: ci_prefix.induct) auto

lemma ci_find_Some_iff:
  "ci_find p s = Some i \<longleftrightarrow>
   i \<le> length s \<and> ci_prefix p (drop i s) \<and> (\<forall>j<i. \<not> ci_prefix p (drop j s))"
proof (induction s arbitrary: i)
  case Nil
  then show ?case by auto
next
  case (Cons c s)
  show ?case
  proof (cases "ci_prefix p (c # s)")
    case True
    then show ?thesis by (cases i) auto
  next
    case False
    show ?thesis
    proof (cases i)
      case 0
      then show ?thesis using False by simp
    next
      case (Suc i')
      have "(\<forall>j<Suc i'. \<not> ci_prefix p (drop j (c # s))) \<longleftrightarrow>
            \<not> ci_prefix p (c # s) \<and> (\<forall>j<i'. \<not> ci_prefix p (drop j s))"
        by (simp only: All_less_Suc2) simp
      then show ?thesis using False Suc Cons.IH [of i'] by auto
    qed
  qed
qed

text \<open>C32: \<open>re_search_between\<close> returns exactly the group of the match that
  \<open>re.search\<close> selects for \<open>a(.*?)b\<close> under \<open>DOTALL | IGNORECASE\<close>: the leftmost
  start, then the shortest group; and it returns \<open>None\<close> exactly when there is no
  match.\<close>

theorem re_search_between_leftmost_lazy:
  "re_search_between a b s = Some g \<longleftrightarrow>
   (\<exists>k n. lazy_match a b s k n \<and> (\<forall>k' n'. lazy_match a b s k' n' \<longrightarrow> k \<le> k') \<and>
          (\<forall>n'. lazy_match a b s k n' \<longrightarrow> n \<le> n') \<and> g = take n (drop (k + length a) s))"
proof
  assume "re_search_between a b s = Some g"
  then obtain i j where i: "ci_find a s = Some i" and j: "ci_find b (drop (i + length a) s) = Some j"
    and g: "g = take j (drop (i + length a) s)"
    by (auto simp: re_search_between_def Let_def split: option.splits)
  from i have i1: "i \<le> length s" and i2: "ci_prefix a (drop i s)"
    and i3: "\<forall>k<i. \<not> ci_prefix a (drop k s)"
    by (simp_all add: ci_find_Some_iff)
  from j have j1: "j \<le> length s - (i + length a)" and j2: "ci_prefix b (drop (i + length a + j) s)"
    and j3: "\<forall>n<j. \<not> ci_prefix b (drop (i + length a + n) s)"
    by (simp_all add: ci_find_Some_iff add.commute)
  have la: "i + length a \<le> length s"
    using ci_prefix_length [OF i2] i1 by simp
  have m: "lazy_match a b s i j"
    using i2 j1 j2 la by (simp add: lazy_match_def)
  have left: "i \<le> k'" if "lazy_match a b s k' n'" for k' n'
    using that i3 by (auto simp: lazy_match_def not_less [symmetric])
  have lazy: "j \<le> n'" if "lazy_match a b s i n'" for n'
    using that j3 by (auto simp: lazy_match_def not_less [symmetric])
  show "\<exists>k n. lazy_match a b s k n \<and> (\<forall>k' n'. lazy_match a b s k' n' \<longrightarrow> k \<le> k') \<and>
          (\<forall>n'. lazy_match a b s k n' \<longrightarrow> n \<le> n') \<and> g = take n (drop (k + length a) s)"
    using m left lazy g by blast
next
  assume "\<exists>k n. lazy_match a b s k n \<and> (\<forall>k' n'. lazy_match a b s k' n' \<longrightarrow> k \<le> k') \<and>
          (\<forall>n'. lazy_match a b s k n' \<longrightarrow> n \<le> n') \<and> g = take n (drop (k + length a) s)"
  then obtain k n where m: "lazy_match a b s k n"
    and left: "\<And>k' n'. lazy_match a b s k' n' \<Longrightarrow> k \<le> k'"
    and lazy: "\<And>n'. lazy_match a b s k n' \<Longrightarrow> n \<le> n'"
    and g: "g = take n (drop (k + length a) s)" by blast
  from m have m1: "k + length a + n \<le> length s" and m2: "ci_prefix a (drop k s)"
    and m3: "ci_prefix b (drop (k + length a + n) s)" by (simp_all add: lazy_match_def)
  have first_a: "\<not> ci_prefix a (drop j s)" if "j < k" for j
  proof
    assume "ci_prefix a (drop j s)"
    moreover have "j + length a + (k - j + n) = k + length a + n" using that by simp
    ultimately have "lazy_match a b s j (k - j + n)"
      using m1 m3 by (simp add: lazy_match_def ac_simps)
    then show False using left [of j] that by simp
  qed
  have fa: "ci_find a s = Some k"
    using m1 m2 first_a by (simp add: ci_find_Some_iff)
  have first_b: "\<not> ci_prefix b (drop (k + length a + n') s)" if "n' < n" for n'
  proof
    assume "ci_prefix b (drop (k + length a + n') s)"
    then have "lazy_match a b s k n'" using m1 m2 that by (simp add: lazy_match_def)
    then show False using lazy [of n'] that by simp
  qed
  have fb: "ci_find b (drop (k + length a) s) = Some n"
    using m1 m3 first_b by (simp add: ci_find_Some_iff add.commute)
  show "re_search_between a b s = Some g"
    using fa fb g by (simp add: re_search_between_def)
qed

theorem re_search_between_leftmost_lazy_witness:
  "re_search_between ''ab'' ''c'' ''xAbyyCzc'' = Some ''yy''"
proof -
  have m: "lazy_match ''ab'' ''c'' ''xAbyyCzc'' 1 2"
    by code_simp
  have left: "1 \<le> k'" if "lazy_match ''ab'' ''c'' ''xAbyyCzc'' k' n'" for k' n'
  proof (rule ccontr)
    assume "\<not> 1 \<le> k'"
    then have "k' = 0" by simp
    with that show False by (simp add: lazy_match_def py_defs)
  qed
  have lazy: "2 \<le> n'" if "lazy_match ''ab'' ''c'' ''xAbyyCzc'' 1 n'" for n'
  proof (rule ccontr)
    assume "\<not> 2 \<le> n'"
    then have "n' = 0 \<or> n' = 1" by arith
    with that show False by (auto simp: lazy_match_def py_defs)
  qed
  have "\<exists>k n. lazy_match ''ab'' ''c'' ''xAbyyCzc'' k n \<and>
      (\<forall>k' n'. lazy_match ''ab'' ''c'' ''xAbyyCzc'' k' n' \<longrightarrow> k \<le> k') \<and>
      (\<forall>n'. lazy_match ''ab'' ''c'' ''xAbyyCzc'' k n' \<longrightarrow> n \<le> n') \<and>
      ''yy'' = take n (drop (k + length ''ab'') ''xAbyyCzc'')"
    using m left lazy by (intro exI [of _ 1] exI [of _ 2]) simp
  then show ?thesis
    using re_search_between_leftmost_lazy [of "''ab''" "''c''" "''xAbyyCzc''" "''yy''"] by blast
qed

text \<open>C33: \<open>re_search_rest\<close> returns exactly the group of the match that
  \<open>re.search\<close> selects for \<open>a(.*)\<close> under \<open>DOTALL | IGNORECASE\<close>: the leftmost
  start, then the longest group (the rest of the text).\<close>

theorem re_search_rest_leftmost_greedy:
  "re_search_rest a s = Some g \<longleftrightarrow>
   (\<exists>k n. greedy_match a s k n \<and> (\<forall>k' n'. greedy_match a s k' n' \<longrightarrow> k \<le> k') \<and>
          (\<forall>n'. greedy_match a s k n' \<longrightarrow> n' \<le> n) \<and> g = take n (drop (k + length a) s))"
proof
  assume "re_search_rest a s = Some g"
  then obtain i where i: "ci_find a s = Some i" and g: "g = drop (i + length a) s"
    by (auto simp: re_search_rest_def)
  from i have i1: "i \<le> length s" and i2: "ci_prefix a (drop i s)"
    and i3: "\<forall>k<i. \<not> ci_prefix a (drop k s)"
    by (simp_all add: ci_find_Some_iff)
  have la: "i + length a \<le> length s"
    using ci_prefix_length [OF i2] i1 by simp
  let ?n = "length s - (i + length a)"
  have m: "greedy_match a s i ?n" using i2 la by (simp add: greedy_match_def)
  have left: "i \<le> k'" if "greedy_match a s k' n'" for k' n'
    using that i3 by (auto simp: greedy_match_def not_less [symmetric])
  have greedy: "n' \<le> ?n" if "greedy_match a s i n'" for n'
    using that by (auto simp: greedy_match_def)
  have "g = take ?n (drop (i + length a) s)" using g by simp
  then show "\<exists>k n. greedy_match a s k n \<and> (\<forall>k' n'. greedy_match a s k' n' \<longrightarrow> k \<le> k') \<and>
          (\<forall>n'. greedy_match a s k n' \<longrightarrow> n' \<le> n) \<and> g = take n (drop (k + length a) s)"
    using m left greedy by blast
next
  assume "\<exists>k n. greedy_match a s k n \<and> (\<forall>k' n'. greedy_match a s k' n' \<longrightarrow> k \<le> k') \<and>
          (\<forall>n'. greedy_match a s k n' \<longrightarrow> n' \<le> n) \<and> g = take n (drop (k + length a) s)"
  then obtain k n where m: "greedy_match a s k n"
    and left: "\<And>k' n'. greedy_match a s k' n' \<Longrightarrow> k \<le> k'"
    and greedy: "\<And>n'. greedy_match a s k n' \<Longrightarrow> n' \<le> n"
    and g: "g = take n (drop (k + length a) s)" by blast
  from m have m1: "k + length a + n \<le> length s" and m2: "ci_prefix a (drop k s)"
    by (simp_all add: greedy_match_def)
  have first_a: "\<not> ci_prefix a (drop j s)" if "j < k" for j
  proof
    assume "ci_prefix a (drop j s)"
    then have "greedy_match a s j 0" using m1 that by (simp add: greedy_match_def)
    then show False using left [of j 0] that by simp
  qed
  have fa: "ci_find a s = Some k"
    using m1 m2 first_a by (simp add: ci_find_Some_iff)
  have "greedy_match a s k (length s - (k + length a))" using m1 m2 by (simp add: greedy_match_def)
  then have "n = length s - (k + length a)" using greedy m1 by fastforce
  then show "re_search_rest a s = Some g"
    using fa g by (simp add: re_search_rest_def)
qed

theorem re_search_rest_leftmost_greedy_witness:
  "re_search_rest ''ab'' ''xAbyyAbz'' = Some ''yyAbz''"
proof -
  have m: "greedy_match ''ab'' ''xAbyyAbz'' 1 5"
    by code_simp
  have left: "1 \<le> k'" if "greedy_match ''ab'' ''xAbyyAbz'' k' n'" for k' n'
  proof (rule ccontr)
    assume "\<not> 1 \<le> k'"
    then have "k' = 0" by simp
    with that show False by (simp add: greedy_match_def py_defs)
  qed
  have greedy: "n' \<le> 5" if "greedy_match ''ab'' ''xAbyyAbz'' 1 n'" for n'
    using that by (simp add: greedy_match_def)
  have "\<exists>k n. greedy_match ''ab'' ''xAbyyAbz'' k n \<and>
      (\<forall>k' n'. greedy_match ''ab'' ''xAbyyAbz'' k' n' \<longrightarrow> k \<le> k') \<and>
      (\<forall>n'. greedy_match ''ab'' ''xAbyyAbz'' k n' \<longrightarrow> n' \<le> n) \<and>
      ''yyAbz'' = take n (drop (k + length ''ab'') ''xAbyyAbz'')"
    using m left greedy by (intro exI [of _ 1] exI [of _ 5]) simp
  then show ?thesis
    using re_search_rest_leftmost_greedy [of "''ab''" "''xAbyyAbz''" "''yyAbz''"] by blast
qed

end
