(* ===== verification/Response_Parser.thy ===== *)
theory Response_Parser
  imports Regex_Search
begin

text \<open>
  \<open>parse_llm_response\<close> of \<open>src/app/main.py\<close> (lines 76-167): the dictionary
  \<open>parsed_data\<close> with its five fixed keys is the record \<open>parsed_data\<close>; the table
  \<open>sections\<close> of headings is an association list in the dictionary's order; the
  loop over \<open>llm_text.splitlines()\<close> is a fold of the step \<open>scan_line\<close> over the
  state \<open>scan_state\<close> (\<open>current_section_key\<close>, \<open>buffer\<close>, \<open>parsed_data\<close>);
  the recommendation clean-up and the regex fallback are functions on the record.
\<close>

subsection \<open>The result record\<close>

datatype section_key = Summary | Requirements | Challenges | Recommendation | Reasoning

record parsed_data =
  summary :: string
  requirements :: string
  challenges :: string
  recommendation :: string
  reasoning :: string

definition not_available :: string where
  "not_available = ''Not available''"

definition default_parsed :: parsed_data where
  "default_parsed =
     \<lparr>summary = not_available, requirements = not_available, challenges = not_available,
      recommendation = ''UNCERTAIN'', reasoning = not_available\<rparr>"

text \<open>\<open>parsed_data[key]\<close> and \<open>parsed_data[key] = v\<close>.\<close>

fun get_field :: "section_key \<Rightarrow> parsed_data \<Rightarrow> string" where
  "get_field Summary d = summary d"
| "get_field Requirements d = requirements d"
| "get_field Challenges d = challenges d"
| "get_field Recommendation d = recommendation d"
| "get_field Reasoning d = reasoning d"

fun set_field :: "section_key \<Rightarrow> string \<Rightarrow> parsed_data \<Rightarrow> parsed_data" where
  "set_field Summary v d = d\<lparr>summary := v\<rparr>"
| "set_field Requirements v d = d\<lparr>requirements := v\<rparr>"
| "set_field Challenges v d = d\<lparr>challenges := v\<rparr>"
| "set_field Recommendation v d = d\<lparr>recommendation := v\<rparr>"
| "set_field Reasoning v d = d\<lparr>reasoning := v\<rparr>"

subsection \<open>Headings\<close>

definition sections :: "(string \<times> section_key) list" where
  "sections =
     [(''Summary'', Summary), (''Key Requirements'', Requirements),
      (''Potential Challenges'', Challenges), (''Overall Recommendation'', Recommendation),
      (''Reasoning for Recommendation'', Reasoning)]"

text \<open>\<open>f"**{heading}:**"\<close>.\<close>

definition heading_marker :: "string \<Rightarrow> string" where
  "heading_marker h = ''**'' @ h @ '':**''"

text \<open>The inner loop over \<open>sections.items()\<close>: the first heading whose marker
  starts the stripped line; the loop breaks there.\<close>

fun find_heading :: "(string \<times> section_key) list \<Rightarrow> string \<Rightarrow> (string \<times> section_key) option" where
  "find_heading [] line = None"
| "find_heading ((h, k) # hs) line =
     (if py_startswith (py_strip line) (heading_marker h) then Some (h, k)
      else find_heading hs line)"

subsection \<open>The line scanner\<close>

record scan_state =
  current_section_key :: "section_key option"
  buffer :: "string list"
  parsed :: parsed_data

definition scan_init :: scan_state where
  "scan_init = \<lparr>current_section_key = None, buffer = [], parsed = default_parsed\<rparr>"

text \<open>\<open>if current_section_key and buffer:
  parsed_data[current_section_key] = "\n".join(buffer).strip()\<close>\<close>

definition flush_section :: "scan_state \<Rightarrow> parsed_data" where
  "flush_section st =
     (case current_section_key st of
        None \<Rightarrow> parsed st
      | Some k \<Rightarrow>
          if buffer st \<noteq> [] then set_field k (py_strip (py_join nl (buffer st))) (parsed st)
          else parsed st)"

text \<open>\<open>line.replace(f"**{heading}:**", "").strip()\<close>: the text after the marker.\<close>

definition heading_body :: "string \<Rightarrow> string \<Rightarrow> string" where
  "heading_body h line = py_strip (py_replace (heading_marker h) [] line)"

text \<open>One iteration of \<open>for line in lines\<close>: a heading line flushes the open
  section and opens its own with the text after the marker; another line is appended,
  stripped, to the open section's buffer, or dropped when no section is open.\<close>

definition scan_line :: "scan_state \<Rightarrow> string \<Rightarrow> scan_state" where
  "scan_line st line =
     (case find_heading sections line of
        Some (h, k) \<Rightarrow>
          \<lparr>current_section_key = Some k, buffer = [heading_body h line],
           parsed = flush_section st\<rparr>
      | None \<Rightarrow>
          (if current_section_key st \<noteq> None
           then st\<lparr>buffer := buffer st @ [py_strip line]\<rparr> else st))"

definition scan_lines :: "string \<Rightarrow> parsed_data" where
  "scan_lines t = flush_section (foldl scan_line scan_init (py_splitlines t))"

subsection \<open>The recommendation\<close>

text \<open>The \<open>if/elif\<close> chain on the upper-cased text, shared by the primary pass
  (lines 125-130) and the fallback (lines 156-158).\<close>

definition rec_keyword :: "string \<Rightarrow> string option" where
  "rec_keyword r =
     (if py_in ''GO'' r \<and> \<not> py_in ''NO-GO'' r then Some ''GO''
      else if py_in ''NO-GO'' r then Some ''NO-GO''
      else if py_in ''UNCERTAIN'' r then Some ''UNCERTAIN''
      else None)"

text \<open>Lines 124-137: a keyword wins; otherwise a non-empty text of fewer than four
  words is kept as it is, and anything else becomes \<open>UNCERTAIN\<close>.\<close>

definition normalize_recommendation :: "parsed_data \<Rightarrow> parsed_data" where
  "normalize_recommendation d =
     (case rec_keyword (py_upper (recommendation d)) of
        Some v \<Rightarrow> d\<lparr>recommendation := v\<rparr>
      | None \<Rightarrow>
          if recommendation d \<noteq> [] \<and> length (py_split (recommendation d)) < 4 then d
          else d\<lparr>recommendation := ''UNCERTAIN''\<rparr>)"

subsection \<open>The fallback pass\<close>

text \<open>Lines 143-162: each field is searched for on its own in the whole text and
  overwritten only where its pattern matches. The \<open>try/except\<close> around it is not
  modelled as a branch: \<open>re.search\<close> with these fixed patterns and a \<open>str\<close>
  argument raises nothing.\<close>

definition fallback_extract :: "string \<Rightarrow> parsed_data \<Rightarrow> parsed_data" where
  "fallback_extract t d =
     (let m = heading_marker;
          d1 = (case re_search_between (m ''Summary'') (m ''Key Requirements'') t of
                  None \<Rightarrow> d | Some g \<Rightarrow> d\<lparr>summary := py_strip g\<rparr>);
          d2 = (case re_search_between (m ''Key Requirements'') (m ''Potential Challenges'') t of
                  None \<Rightarrow> d1 | Some g \<Rightarrow> d1\<lparr>requirements := py_strip g\<rparr>);
          d3 = (case re_search_between (m ''Potential Challenges'') (m ''Overall Recommendation'') t of
                  None \<Rightarrow> d2 | Some g \<Rightarrow> d2\<lparr>challenges := py_strip g\<rparr>);
          d4 = (case re_search_between (m ''Overall Recommendation'')
                       (m ''Reasoning for Recommendation'') t of
                  None \<Rightarrow> d3
                | Some g \<Rightarrow>
                    d3\<lparr>recommendation :=
                         (case rec_keyword (py_upper (py_strip g)) of
                            Some v \<Rightarrow> v | None \<Rightarrow> py_strip g)\<rparr>);
          d5 = (case re_search_rest (m ''Reasoning for Recommendation'') t of
                  None \<Rightarrow> d4 | Some g \<Rightarrow> d4\<lparr>reasoning := py_strip g\<rparr>)
      in d5)"

subsection \<open>parse_llm_response\<close>

text \<open>Lines 84-89: an empty text, or one that starts with \<open>Error\<close>, is returned in
  \<open>reasoning\<close> with every other field at its default. Otherwise the scan, the
  recommendation clean-up, and the fallback when both \<open>summary\<close> and
  \<open>reasoning\<close> are still \<open>Not available\<close> (line 142).\<close>

definition parse_llm_response :: "string \<Rightarrow> parsed_data" where
  "parse_llm_response t =
     (if t = [] \<or> py_startswith t ''Error'' then default_parsed\<lparr>reasoning := t\<rparr>
      else
        (let d = normalize_recommendation (scan_lines t)
         in if summary d = not_available \<and> reasoning d = not_available
            then fallback_extract t d else d))"

end
