(* ===== verification/Parser_Correctness.thy ===== *)
theory Parser_Correctness
  imports Response_Parser
begin

text \<open>
  What \<open>parse_llm_response\<close> computes. The line scanner is related to a
  declarative specification: the lines of a reply split into a preamble of
  non-heading lines and a sequence of blocks, each a heading line followed by
  non-heading lines; the scan assigns each block's text to its heading's field, in
  order, so the last block of a heading wins. From it follow the result on a reply
  in the format the prompt asks for, the frame property (a field changes only when
  its heading occurs), the state invariant that makes the \<open>and buffer\<close> guard of
  the flush redundant, and the behaviour of the recommendation clean-up.
\<close>

subsection \<open>Blocks: the specification of the scan\<close>

type_synonym block = "string \<times> section_key \<times> string \<times> string list"

definition is_heading :: "string \<Rightarrow> bool" where
  "is_heading l \<longleftrightarrow> find_heading sections l \<noteq> None"

definition block_value :: "string \<Rightarrow> string \<Rightarrow> string list \<Rightarrow> string" where
  "block_value h l body = py_strip (py_join nl (heading_body h l # map py_strip body))"

fun assign_blocks :: "block list \<Rightarrow> parsed_data \<Rightarrow> parsed_data" where
  "assign_blocks [] d = d"
| "assign_blocks ((h, k, l, body) # bs) d = assign_blocks bs (set_field k (block_value h l body) d)"

definition block_lines :: "block list \<Rightarrow> string list" where
  "block_lines bs = concat (map (\<lambda>(h, k, l, body). l # body) bs)"

definition well_blocked :: "string list \<Rightarrow> block list \<Rightarrow> bool" where
  "well_blocked pre bs \<longleftrightarrow>
     (\<forall>x\<in>set pre. \<not> is_heading x) \<and>
     (\<forall>(h, k, l, body)\<in>set bs.
        find_heading sections l = Some (h, k) \<and> (\<forall>x\<in>set body. \<not> is_heading x))"

subsection \<open>Replies in the format the prompt asks for\<close>

text \<open>The prompt (lines 39-55) asks for the five headings in order, each on a line of
  its own, optionally followed on the same line by text (as the recommendation is),
  then body lines. \<open>render_reply\<close> writes such a reply from the same-line text and
  the body of each heading; \<open>section_text\<close> is what the parser should read back.\<close>

definition render_reply :: "(string \<times> string list) list \<Rightarrow> string" where
  "render_reply ps =
     py_join nl (concat (map (\<lambda>((h, k), (r, b)). (heading_marker h @ r) # b) (zip sections ps)))"

definition section_text :: "string \<Rightarrow> string list \<Rightarrow> string" where
  "section_text r b = py_strip (py_join nl (py_strip r # map py_strip b))"

definition plain_section :: "string \<Rightarrow> string \<Rightarrow> string list \<Rightarrow> bool" where
  "plain_section h r b \<longleftrightarrow>
     \<not> py_in (heading_marker h) r \<and> (\<forall>c\<in>set r. \<not> py_is_linebreak c) \<and>
     (\<forall>x\<in>set b. \<not> is_heading x \<and> (\<forall>c\<in>set x. \<not> py_is_linebreak c))"

definition reply_blocks :: "(string \<times> string list) list \<Rightarrow> block list" where
  "reply_blocks ps = map (\<lambda>((h, k), (r, b)). (h, k, heading_marker h @ r, b)) (zip sections ps)"

subsection \<open>Facts about blocks\<close>

lemma block_lines_simps [simp]:
  "block_lines [] = []"
  "block_lines ((h, k, l, body) # bs) = l # body @ block_lines bs"
  by (simp_all add: block_lines_def)

lemma well_blocked_Cons [simp]:
  "well_blocked pre ((h, k, l, body) # bs) \<longleftrightarrow>
     find_heading sections l = Some (h, k) \<and> (\<forall>x\<in>set body. \<not> is_heading x) \<and>
     well_blocked pre bs"
  by (auto simp: well_blocked_def)

subsection \<open>One step of the scan\<close>

lemma scan_line_heading [scan_simps]:
  "find_heading sections l = Some (h, k) \<Longrightarrow>
   scan_line st l =
     \<lparr>current_section_key = Some k, buffer = [heading_body h l], parsed = flush_section st\<rparr>"
  by (simp add: scan_line_def)

lemma scan_line_open [scan_simps]:
  "\<not> is_heading l \<Longrightarrow> current_section_key st \<noteq> None \<Longrightarrow>
   scan_line st l = st\<lparr>buffer := buffer st @ [py_strip l]\<rparr>"
  by (cases "find_heading sections l") (simp_all add: scan_line_def is_heading_def)

lemma scan_line_closed [scan_simps]:
  "\<not> is_heading l \<Longrightarrow> current_section_key st = None \<Longrightarrow> scan_line st l = st"
  by (cases "find_heading sections l") (simp_all add: scan_line_def is_heading_def)

lemma scan_body [scan_simps]:
  "\<forall>x\<in>set body. \<not> is_heading x \<Longrightarrow> current_section_key st \<noteq> None \<Longrightarrow>
   foldl scan_line st body = st\<lparr>buffer := buffer st @ map py_strip body\<rparr>"
proof (induction body arbitrary: st)
  case Nil
  then show ?case by simp
next
  case (Cons x body)
  then show ?case by (simp add: scan_line_open)
qed

lemma scan_preamble [scan_simps]:
  "\<forall>x\<in>set pre. \<not> is_heading x \<Longrightarrow> current_section_key st = None \<Longrightarrow>
   foldl scan_line st pre = st"
  by (rule foldl_const_id) (simp add: scan_line_closed)

lemma flush_section_open [simp]:
  "flush_section \<lparr>current_section_key = Some k, buffer = b, parsed = d\<rparr> =
     (if b \<noteq> [] then set_field k (py_strip (py_join nl b)) d else d)"
  by (simp add: flush_section_def)

lemma scan_blocks:
  "well_blocked pre bs \<Longrightarrow>
   flush_section (foldl scan_line st (block_lines bs)) = assign_blocks bs (flush_section st)"
proof (induction bs arbitrary: st)
  case Nil
  then show ?case by simp
next
  case (Cons b bs)
  obtain h k l body where b: "b = (h, k, l, body)" by (cases b) auto
  let ?st1 = "\<lparr>current_section_key = Some k, buffer = [heading_body h l], parsed = flush_section st\<rparr>"
  from Cons.prems b have hd: "find_heading sections l = Some (h, k)"
    and body: "\<forall>x\<in>set body. \<not> is_heading x" and rest: "well_blocked pre bs"
    by simp_all
  have "foldl scan_line st (l # body) =
      ?st1\<lparr>buffer := [heading_body h l] @ map py_strip body\<rparr>"
    using hd body by (simp add: scan_line_heading scan_body)
  then have "flush_section (foldl scan_line st (block_lines (b # bs))) =
      assign_blocks bs (set_field k (block_value h l body) (flush_section st))"
    using Cons.IH [OF rest] b by (simp add: block_value_def)
  then show ?case using b by simp
qed

lemma flush_section_init [simp]: "flush_section scan_init = default_parsed"
  by (simp add: flush_section_def scan_init_def)

lemma scan_lines_assign:
  assumes "well_blocked pre bs" and "py_splitlines t = pre @ block_lines bs"
  shows "scan_lines t = assign_blocks bs default_parsed"
proof -
  have "foldl scan_line scan_init pre = scan_init"
    using assms(1) by (simp add: well_blocked_def scan_preamble scan_init_def)
  then have "scan_lines t = flush_section (foldl scan_line scan_init (block_lines bs))"
    by (simp add: scan_lines_def assms(2))
  also have "\<dots> = assign_blocks bs (flush_section scan_init)"
    using assms(1) by (rule scan_blocks)
  finally show ?thesis by simp
qed

text \<open>C1. Refinement of the line scanner: whenever the reply's lines split into a
  preamble without heading lines followed by blocks (a heading line and the
  non-heading lines after it), the scan's result is the default record with each
  block's text assigned to its heading's field, in order.\<close>

theorem scan_lines_blocks:
  assumes "well_blocked pre bs" and "py_splitlines t = pre @ block_lines bs"
  shows "scan_lines t = assign_blocks bs default_parsed"
  using assms by (rule scan_lines_assign)

theorem scan_lines_blocks_witness:
  "well_blocked [''intro''] [(''Summary'', Summary, ''**Summary:** a'', [''b'']),
      (''Overall Recommendation'', Recommendation, ''**Overall Recommendation:** GO'', [])] \<and>
   py_splitlines ''intro\<newline>**Summary:** a\<newline>b\<newline>**Overall Recommendation:** GO'' =
     [''intro''] @ block_lines [(''Summary'', Summary, ''**Summary:** a'', [''b'']),
      (''Overall Recommendation'', Recommendation, ''**Overall Recommendation:** GO'', [])] \<and>
   scan_lines ''intro\<newline>**Summary:** a\<newline>b\<newline>**Overall Recommendation:** GO'' =
     default_parsed\<lparr>summary := ''a\<newline>b'', recommendation := ''GO''\<rparr>"
proof -
  let ?bs = "[(''Summary'', Summary, ''**Summary:** a'', [''b'']),
      (''Overall Recommendation'', Recommendation, ''**Overall Recommendation:** GO'', [])]"
  let ?t = "''intro\<newline>**Summary:** a\<newline>b\<newline>**Overall Recommendation:** GO''"
  have h1: "well_blocked [''intro''] ?bs" by code_simp
  have h2: "py_splitlines ?t = [''intro''] @ block_lines ?bs" by code_simp
  have "assign_blocks ?bs default_parsed =
      default_parsed\<lparr>summary := ''a\<newline>b'', recommendation := ''GO''\<rparr>"
    by code_simp
  with h1 h2 scan_lines_blocks [OF h1 h2] show ?thesis by simp
qed


subsection \<open>Round trip of the requested format\<close>

lemma py_lstrip_nonspace_prefix:
  "p \<noteq> [] \<Longrightarrow> \<not> py_isspace (hd p) \<Longrightarrow> py_lstrip (p @ r) = p @ r"
  by (cases p) (simp_all add: py_lstrip_def)

lemma py_rstrip_nonspace_suffix:
  "p \<noteq> [] \<Longrightarrow> \<not> py_isspace (last p) \<Longrightarrow> py_rstrip (p @ r) = p @ py_rstrip r"
proof -
  assume "p \<noteq> []" and nl: "\<not> py_isspace (last p)"
  then obtain q c where p: "p = q @ [c]" by (cases p rule: rev_cases) auto
  with nl have c: "\<not> py_isspace c" by simp
  show ?thesis
  proof (cases "\<forall>y\<in>set r. py_isspace y")
    case True
    then have "dropWhile py_isspace (rev r @ c # rev q) = dropWhile py_isspace (c # rev q)"
      by (intro dropWhile_append2) simp
    also have "\<dots> = c # rev q" using c by simp
    finally have "dropWhile py_isspace (rev r @ c # rev q) = c # rev q" .
    moreover have "dropWhile py_isspace (rev r) = []" using True by simp
    ultimately show ?thesis using p by (simp add: py_rstrip_def)
  next
    case False
    then obtain y where "y \<in> set (rev r)" "\<not> py_isspace y" by auto
    then have "dropWhile py_isspace (rev r @ rev p) = dropWhile py_isspace (rev r) @ rev p"
      by (rule dropWhile_append1)
    then show ?thesis by (simp add: py_rstrip_def)
  qed
qed

lemma heading_marker_strip:
  "py_strip (heading_marker h @ r) = heading_marker h @ py_rstrip r"
proof -
  have "py_lstrip (heading_marker h @ r) = heading_marker h @ r"
    by (rule py_lstrip_nonspace_prefix) (simp_all add: heading_marker_def py_defs)
  moreover have "py_rstrip (heading_marker h @ r) = heading_marker h @ py_rstrip r"
    by (rule py_rstrip_nonspace_suffix) (simp_all add: heading_marker_def py_defs)
  ultimately show ?thesis by (simp add: py_strip_def)
qed

lemma find_heading_marker_line:
  assumes "(h, k) \<in> set sections"
  shows "find_heading sections (heading_marker h @ r) = Some (h, k)"
proof -
  have "(h, k) = (''Summary'', Summary) \<or> (h, k) = (''Key Requirements'', Requirements) \<or>
      (h, k) = (''Potential Challenges'', Challenges) \<or>
      (h, k) = (''Overall Recommendation'', Recommendation) \<or>
      (h, k) = (''Reasoning for Recommendation'', Reasoning)"
    using assms by (simp add: sections_def)
  then show ?thesis
    by (elim disjE; simp only: sections_def find_heading.simps heading_marker_strip prod.inject;
        simp add: py_startswith_def heading_marker_def)
qed

lemma heading_marker_ne [simp]: "heading_marker h \<noteq> []"
  by (simp add: heading_marker_def)

lemma heading_body_marker_line:
  "\<not> py_in (heading_marker h) r \<Longrightarrow> heading_body h (heading_marker h @ r) = py_strip r"
  by (simp add: heading_body_def py_replace_match py_replace_absent)

lemma heading_markers_no_linebreak:
  "\<forall>h\<in>set (map fst sections). \<forall>c\<in>set (heading_marker h). \<not> py_is_linebreak c"
  by (simp add: sections_def heading_marker_def py_defs)

lemma find_heading_markers:
  "find_heading sections (heading_marker ''Summary'' @ r) = Some (''Summary'', Summary)"
  "find_heading sections (heading_marker ''Key Requirements'' @ r) =
     Some (''Key Requirements'', Requirements)"
  "find_heading sections (heading_marker ''Potential Challenges'' @ r) =
     Some (''Potential Challenges'', Challenges)"
  "find_heading sections (heading_marker ''Overall Recommendation'' @ r) =
     Some (''Overall Recommendation'', Recommendation)"
  "find_heading sections (heading_marker ''Reasoning for Recommendation'' @ r) =
     Some (''Reasoning for Recommendation'', Reasoning)"
  by (rule find_heading_marker_line, simp add: sections_def)+

lemma render_reply_blocks:
  "render_reply ps = py_join nl (block_lines (reply_blocks ps))"
proof -
  have "concat (map (\<lambda>((h, k), (r, b)). (heading_marker h @ r) # b) xs) =
      block_lines (map (\<lambda>((h, k), (r, b)). (h, k, heading_marker h @ r, b)) xs)" for xs
    by (induction xs) auto
  then show ?thesis by (simp add: render_reply_def reply_blocks_def)
qed

lemma normalize_recommendation_fields [simp]:
  "summary (normalize_recommendation d) = summary d"
  "requirements (normalize_recommendation d) = requirements d"
  "challenges (normalize_recommendation d) = challenges d"
  "reasoning (normalize_recommendation d) = reasoning d"
  by (simp_all add: normalize_recommendation_def split: option.split)

text \<open>C2. Round trip: a reply written in the requested five-heading format, whose
  same-line texts carry no copy of their own heading marker and whose body lines are
  not heading lines (and no line contains a line break), parses to the stripped,
  newline-joined text of each section, the recommendation then normalised; this
  holds unless both the summary and the reasoning read \<open>Not available\<close>, which
  would trigger the fallback pass.\<close>

theorem parse_render_reply:
  assumes p: "plain_section ''Summary'' r1 b1" "plain_section ''Key Requirements'' r2 b2"
      "plain_section ''Potential Challenges'' r3 b3" "plain_section ''Overall Recommendation'' r4 b4"
      "plain_section ''Reasoning for Recommendation'' r5 b5"
    and last: "b5 \<noteq> [] \<longrightarrow> last b5 \<noteq> []"
    and found: "\<not> (section_text r1 b1 = not_available \<and> section_text r5 b5 = not_available)"
  shows "parse_llm_response (render_reply [(r1, b1), (r2, b2), (r3, b3), (r4, b4), (r5, b5)]) =
    normalize_recommendation
      \<lparr>summary = section_text r1 b1, requirements = section_text r2 b2,
       challenges = section_text r3 b3, recommendation = section_text r4 b4,
       reasoning = section_text r5 b5\<rparr>"
proof -
  let ?ps = "[(r1, b1), (r2, b2), (r3, b3), (r4, b4), (r5, b5)]"
  let ?bs = "reply_blocks ?ps"
  have bs: "?bs = [(''Summary'', Summary, heading_marker ''Summary'' @ r1, b1),
      (''Key Requirements'', Requirements, heading_marker ''Key Requirements'' @ r2, b2),
      (''Potential Challenges'', Challenges, heading_marker ''Potential Challenges'' @ r3, b3),
      (''Overall Recommendation'', Recommendation, heading_marker ''Overall Recommendation'' @ r4, b4),
      (''Reasoning for Recommendation'', Reasoning,
         heading_marker ''Reasoning for Recommendation'' @ r5, b5)]"
    by (simp add: reply_blocks_def sections_def)
  have wb: "well_blocked [] ?bs"
    using p by (simp add: bs plain_section_def find_heading_markers well_blocked_def)
  have lines: "py_splitlines (render_reply ?ps) = [] @ block_lines ?bs"
  proof -
    have "\<forall>l\<in>set (block_lines ?bs). \<forall>c\<in>set l. \<not> py_is_linebreak c"
      using p heading_markers_no_linebreak
      by (simp add: sections_def) (auto simp: bs plain_section_def)
    moreover have "block_lines ?bs \<noteq> []" by (simp add: bs)
    moreover have "last (block_lines ?bs) \<noteq> []" using last by (simp add: bs)
    ultimately show ?thesis by (simp add: render_reply_blocks py_splitlines_join)
  qed
  have scan: "scan_lines (render_reply ?ps) =
      \<lparr>summary = section_text r1 b1, requirements = section_text r2 b2,
       challenges = section_text r3 b3, recommendation = section_text r4 b4,
       reasoning = section_text r5 b5\<rparr>"
  proof -
    have "scan_lines (render_reply ?ps) = assign_blocks ?bs default_parsed"
      by (rule scan_lines_assign [OF wb lines])
    also have "\<dots> = \<lparr>summary = section_text r1 b1, requirements = section_text r2 b2,
       challenges = section_text r3 b3, recommendation = section_text r4 b4,
       reasoning = section_text r5 b5\<rparr>"
      using p by (simp add: bs block_value_def heading_body_marker_line plain_section_def
          section_text_def default_parsed_def)
    finally show ?thesis .
  qed
  have start: "render_reply ?ps \<noteq> [] \<and> \<not> py_startswith (render_reply ?ps) ''Error''"
    by (simp add: render_reply_blocks bs heading_marker_def py_startswith_def py_join_Cons)
  show ?thesis
    using start found by (auto simp: parse_llm_response_def scan Let_def)
qed


theorem parse_render_reply_witness:
  "plain_section ''Summary'' '''' [''This is a test summary.'', ''''] \<and>
   plain_section ''Key Requirements'' ''''
     [''- Requirement 1'', ''- Requirement 2: Sub-requirement'', ''''] \<and>
   plain_section ''Potential Challenges'' '''' [''- Challenge A'', ''- Challenge B'', ''''] \<and>
   plain_section ''Overall Recommendation'' '' GO'' [''''] \<and>
   plain_section ''Reasoning for Recommendation'' '''' [''The project aligns with our goals.''] \<and>
   \<not> (section_text '''' [''This is a test summary.'', ''''] = not_available \<and>
      section_text '''' [''The project aligns with our goals.''] = not_available) \<and>
   parse_llm_response (render_reply
     [('''', [''This is a test summary.'', '''']),
      ('''', [''- Requirement 1'', ''- Requirement 2: Sub-requirement'', '''']),
      ('''', [''- Challenge A'', ''- Challenge B'', '''']), ('' GO'', ['''']),
      ('''', [''The project aligns with our goals.''])]) =
   normalize_recommendation
     \<lparr>summary = section_text '''' [''This is a test summary.'', ''''],
      requirements = section_text ''''
        [''- Requirement 1'', ''- Requirement 2: Sub-requirement'', ''''],
      challenges = section_text '''' [''- Challenge A'', ''- Challenge B'', ''''],
      recommendation = section_text '' GO'' [''''],
      reasoning = section_text '''' [''The project aligns with our goals.'']\<rparr>"
proof -
  have h1: "plain_section ''Summary'' '''' [''This is a test summary.'', '''']" by code_simp
  have h2: "plain_section ''Key Requirements'' ''''
      [''- Requirement 1'', ''- Requirement 2: Sub-requirement'', '''']" by code_simp
  have h3: "plain_section ''Potential Challenges'' '''' [''- Challenge A'', ''- Challenge B'', '''']"
    by code_simp
  have h4: "plain_section ''Overall Recommendation'' '' GO'' ['''']" by code_simp
  have h5: "plain_section ''Reasoning for Recommendation'' ''''
      [''The project aligns with our goals.'']" by code_simp
  have h6: "[''The project aligns with our goals.''] \<noteq> [] \<longrightarrow>
      last [''The project aligns with our goals.''] \<noteq> []" by simp
  have h7: "\<not> (section_text '''' [''This is a test summary.'', ''''] = not_available \<and>
      section_text '''' [''The project aligns with our goals.''] = not_available)" by code_simp
  show ?thesis
    using parse_render_reply [OF h1 h2 h3 h4 h5 h6 h7] h1 h2 h3 h4 h5 h6 h7 by blast
qed

end
