(* ===== verification/Parser_Properties.thy ===== *)
theory Parser_Properties
  imports Parser_Correctness
begin

text \<open>
  Further properties of \<open>parse_llm_response\<close>: the scan as a total function of the
  reply (every reply decomposes into a preamble and blocks), the frame property of the
  scan, the invariant of the scanner's reachable states, the recommendation
  clean-up, the input without any heading, and the behaviours that differ from what
  the specification or the prompt leads one to expect.
\<close>

subsection \<open>Decomposition of any reply into blocks\<close>

function blocks_from :: "string list \<Rightarrow> block list" where
  "blocks_from ls =
     (case ls of
        [] \<Rightarrow> []
      | l # rest \<Rightarrow>
          (case find_heading sections l of
             None \<Rightarrow> []
           | Some (h, k) \<Rightarrow>
               (h, k, l, takeWhile (\<lambda>x. \<not> is_heading x) rest) #
               blocks_from (dropWhile (\<lambda>x. \<not> is_heading x) rest)))"
  by pat_completeness auto
termination
proof (relation "measure length")
  fix ls :: "string list" and l :: string and rest :: "string list"
  assume "ls = l # rest"
  moreover have "length (dropWhile (\<lambda>x. \<not> is_heading x) rest) \<le> length rest"
    by (rule length_dropWhile_le)
  ultimately show "(dropWhile (\<lambda>x. \<not> is_heading x) rest, ls) \<in> measure length"
    by simp
qed simp

declare blocks_from.simps [simp del]

definition preamble_of :: "string list \<Rightarrow> string list" where
  "preamble_of ls = takeWhile (\<lambda>x. \<not> is_heading x) ls"

definition blocks_of :: "string list \<Rightarrow> block list" where
  "blocks_of ls = blocks_from (dropWhile (\<lambda>x. \<not> is_heading x) ls)"

lemma blocks_from_correct:
  "xs = [] \<or> is_heading (hd xs) \<Longrightarrow>
   block_lines (blocks_from xs) = xs \<and> well_blocked [] (blocks_from xs)"
proof (induction xs rule: blocks_from.induct)
  case (1 ls)
  show ?case
  proof (cases ls)
    case Nil
    then show ?thesis by (simp add: blocks_from.simps well_blocked_def)
  next
    case (Cons l rest)
    with "1.prems" obtain h k where hk: "find_heading sections l = Some (h, k)"
      by (auto simp: is_heading_def)
    let ?P = "\<lambda>x. \<not> is_heading x"
    have next_ok: "dropWhile ?P rest = [] \<or> is_heading (hd (dropWhile ?P rest))"
      using dropWhile_hd [of ?P rest] by simp
    have eq: "blocks_from (l # rest) =
        (h, k, l, takeWhile ?P rest) # blocks_from (dropWhile ?P rest)"
      using hk by (simp add: blocks_from.simps [of "l # rest"])
    have IH: "block_lines (blocks_from (dropWhile ?P rest)) = dropWhile ?P rest \<and>
        well_blocked [] (blocks_from (dropWhile ?P rest))"
      using "1.IH" [OF Cons hk refl next_ok] by (simp add: Cons)
    have body: "\<forall>x\<in>set (takeWhile ?P rest). \<not> is_heading x"
      by (auto dest: set_takeWhileD)
    show ?thesis
      using IH hk body by (simp add: eq Cons)
  qed
qed

lemma decompose_lines:
  "ls = preamble_of ls @ block_lines (blocks_of ls) \<and> well_blocked (preamble_of ls) (blocks_of ls)"
proof -
  let ?P = "\<lambda>x. \<not> is_heading x"
  have "dropWhile ?P ls = [] \<or> is_heading (hd (dropWhile ?P ls))"
    using dropWhile_hd [of ?P ls] by simp
  then have "block_lines (blocks_from (dropWhile ?P ls)) = dropWhile ?P ls \<and>
      well_blocked [] (blocks_from (dropWhile ?P ls))"
    by (rule blocks_from_correct)
  moreover have "\<forall>x\<in>set (takeWhile ?P ls). \<not> is_heading x"
    by (auto dest: set_takeWhileD)
  ultimately show ?thesis
    by (simp add: preamble_of_def blocks_of_def well_blocked_def)
qed


lemma get_set_field [simp]:
  "get_field k (set_field k' v d) = (if k = k' then v else get_field k d)"
  by (cases k; cases k') simp_all

lemma assign_blocks_frame:
  "get_field k (assign_blocks bs d) \<noteq> get_field k d \<Longrightarrow> \<exists>(h, k', l, b)\<in>set bs. k' = k"
proof (induction bs arbitrary: d)
  case Nil
  then show ?case by simp
next
  case (Cons blk bs)
  obtain h k' l b where blk: "blk = (h, k', l, b)" by (cases blk) auto
  show ?case
  proof (cases "k' = k")
    case True
    with blk show ?thesis by auto
  next
    case False
    with Cons.prems blk have "get_field k (assign_blocks bs (set_field k' (block_value h l b) d)) \<noteq>
        get_field k (set_field k' (block_value h l b) d)"
      by simp
    from Cons.IH [OF this] show ?thesis by auto
  qed
qed

lemma heading_line_in_block_lines:
  "(h, k, l, b) \<in> set bs \<Longrightarrow> l \<in> set (block_lines bs)"
  by (induction bs) (auto simp: block_lines_def)

text \<open>The scan is a total function of the reply: the default record updated, in
  order, by the blocks of the reply's lines.\<close>

lemma scan_lines_spec:
  "scan_lines t = assign_blocks (blocks_of (py_splitlines t)) default_parsed"
  by (rule scan_lines_assign [OF conjunct2 [OF decompose_lines] conjunct1 [OF decompose_lines]])

lemma scan_lines_field_default:
  assumes "\<forall>l\<in>set (py_splitlines t). \<forall>h. find_heading sections l \<noteq> Some (h, k)"
  shows "get_field k (scan_lines t) = get_field k default_parsed"
proof (rule ccontr)
  let ?ls = "py_splitlines t"
  assume "get_field k (scan_lines t) \<noteq> get_field k default_parsed"
  then obtain h l b where blk: "(h, k, l, b) \<in> set (blocks_of ?ls)"
    using assign_blocks_frame [of k "blocks_of ?ls" default_parsed]
    by (auto simp: scan_lines_spec)
  with decompose_lines [of ?ls] have "find_heading sections l = Some (h, k)"
    by (auto simp: well_blocked_def)
  moreover have "l \<in> set (block_lines (blocks_of ?ls))"
    using blk by (rule heading_line_in_block_lines)
  then have "l \<in> set ?ls"
    using decompose_lines [of ?ls] by (metis Un_iff set_append)
  ultimately show False using assms by blast
qed

text \<open>C3. Frame: the scan changes a field from its default only if some line of the
  reply is a heading line of that field.\<close>

theorem scan_lines_frame:
  assumes "get_field k (scan_lines t) \<noteq> get_field k default_parsed"
  shows "\<exists>l\<in>set (py_splitlines t). \<exists>h. find_heading sections l = Some (h, k)"
  using assms scan_lines_field_default [of t k] by blast

theorem scan_lines_frame_witness:
  "get_field Challenges (scan_lines ''\<newline>**Summary:**\<newline>Only summary is available.\<newline>\<newline>**Key Requirements:**\<newline>- Req A\<newline>'')
     = get_field Challenges default_parsed \<and>
   get_field Summary (scan_lines ''\<newline>**Summary:**\<newline>Only summary is available.\<newline>\<newline>**Key Requirements:**\<newline>- Req A\<newline>'')
     \<noteq> get_field Summary default_parsed \<and>
   (\<exists>l\<in>set (py_splitlines ''\<newline>**Summary:**\<newline>Only summary is available.\<newline>\<newline>**Key Requirements:**\<newline>- Req A\<newline>'').
      \<exists>h. find_heading sections l = Some (h, Summary))"
proof -
  let ?t = "''\<newline>**Summary:**\<newline>Only summary is available.\<newline>\<newline>**Key Requirements:**\<newline>- Req A\<newline>''"
  have c: "get_field Challenges (scan_lines ?t) = get_field Challenges default_parsed" by code_simp
  have s: "get_field Summary (scan_lines ?t) \<noteq> get_field Summary default_parsed" by code_simp
  show ?thesis using c s scan_lines_frame [OF s] by blast
qed

subsection \<open>The scanner's reachable states\<close>

inductive scan_reachable :: "scan_state \<Rightarrow> bool" where
  init: "scan_reachable scan_init"
| step: "scan_reachable st \<Longrightarrow> scan_reachable (scan_line st l)"

lemma scan_reachable_foldl:
  "scan_reachable st \<Longrightarrow> scan_reachable (foldl scan_line st ls)"
  by (induction ls arbitrary: st) (auto intro: scan_reachable.step)

lemma scan_line_buffer:
  "current_section_key st \<noteq> None \<longrightarrow> buffer st \<noteq> [] \<Longrightarrow>
   current_section_key (scan_line st l) \<noteq> None \<longrightarrow> buffer (scan_line st l) \<noteq> []"
  by (auto simp: scan_line_def split: option.split)

lemma scan_reachable_buffer:
  "scan_reachable st \<Longrightarrow> current_section_key st \<noteq> None \<longrightarrow> buffer st \<noteq> []"
proof (induction rule: scan_reachable.induct)
  case init
  then show ?case by (simp add: scan_init_def)
next
  case (step st l)
  from step.IH show ?case by (rule scan_line_buffer)
qed

text \<open>C4. Invariant of the scanner: in every reachable state an open section has a
  non-empty buffer, so the \<open>and buffer\<close> half of the flush guard
  (\<open>if current_section_key and buffer\<close>, lines 109 and 120) never skips an open
  section: the flush stores the open section's text whenever a section is open.\<close>

theorem flush_section_reachable:
  assumes "scan_reachable st" and "current_section_key st = Some k"
  shows "flush_section st = set_field k (py_strip (py_join nl (buffer st))) (parsed st)"
  using scan_reachable_buffer [OF assms(1)] assms(2) by (simp add: flush_section_def)

theorem flush_section_reachable_witness:
  "scan_reachable (scan_line scan_init ''**Summary:** x'') \<and>
   current_section_key (scan_line scan_init ''**Summary:** x'') = Some Summary \<and>
   flush_section (scan_line scan_init ''**Summary:** x'') =
     set_field Summary (py_strip (py_join nl (buffer (scan_line scan_init ''**Summary:** x''))))
       (parsed (scan_line scan_init ''**Summary:** x''))"
proof -
  have r: "scan_reachable (scan_line scan_init ''**Summary:** x'')"
    by (intro scan_reachable.step scan_reachable.init)
  have k: "current_section_key (scan_line scan_init ''**Summary:** x'') = Some Summary"
    by code_simp
  show ?thesis using r k flush_section_reachable [OF r k] by blast
qed


subsection \<open>The recommendation clean-up\<close>

lemma py_in_no_go_go: "py_in ''NO-GO'' r \<Longrightarrow> py_in ''GO'' r"
proof -
  assume "py_in ''NO-GO'' r"
  then obtain a b where "r = a @ ''NO-GO'' @ b" by (auto simp: py_in_iff)
  then have "r = (a @ ''NO-'') @ ''GO'' @ b" by simp
  then show "py_in ''GO'' r" unfolding py_in_iff by blast
qed

text \<open>C5. The keyword chain of lines 125-130 tests \<open>GO and not NO-GO\<close> first; since
  \<open>GO\<close> is a substring of \<open>NO-GO\<close>, this is the same as testing \<open>NO-GO\<close> first:
  \<open>NO-GO\<close> wins over \<open>GO\<close>, \<open>GO\<close> over \<open>UNCERTAIN\<close>.\<close>

theorem rec_keyword_precedence:
  "rec_keyword r =
     (if py_in ''NO-GO'' r then Some ''NO-GO''
      else if py_in ''GO'' r then Some ''GO''
      else if py_in ''UNCERTAIN'' r then Some ''UNCERTAIN''
      else None)"
  using py_in_no_go_go [of r] by (auto simp: rec_keyword_def)

lemma rec_keyword_values:
  "rec_keyword r = Some v \<Longrightarrow> v \<in> {''GO'', ''NO-GO'', ''UNCERTAIN''}"
  by (auto simp: rec_keyword_def split: if_splits)

text \<open>C6. After the clean-up of lines 123-137 the recommendation is one of
  \<open>GO\<close>, \<open>NO-GO\<close>, \<open>UNCERTAIN\<close>, or the text as parsed when that text names no
  keyword, is not empty and has fewer than four words.\<close>

theorem normalize_recommendation_range:
  "recommendation (normalize_recommendation d) \<in> {''GO'', ''NO-GO'', ''UNCERTAIN''} \<or>
   (recommendation (normalize_recommendation d) = recommendation d \<and>
    rec_keyword (py_upper (recommendation d)) = None \<and>
    recommendation d \<noteq> [] \<and> length (py_split (recommendation d)) < 4)"
proof (cases "rec_keyword (py_upper (recommendation d))")
  case None
  then show ?thesis by (simp add: normalize_recommendation_def)
next
  case (Some v)
  then show ?thesis
    using rec_keyword_values [OF Some] by (simp add: normalize_recommendation_def)
qed

subsection \<open>Errors and replies without structure\<close>

text \<open>C7. An empty reply, or one that starts with \<open>Error\<close>, is passed through in
  \<open>reasoning\<close> with every other field at its default (lines 84-89).\<close>

theorem parse_error_passthrough:
  assumes "t = [] \<or> py_startswith t ''Error''"
  shows "summary (parse_llm_response t) = not_available \<and>
    requirements (parse_llm_response t) = not_available \<and>
    challenges (parse_llm_response t) = not_available \<and>
    recommendation (parse_llm_response t) = ''UNCERTAIN'' \<and>
    reasoning (parse_llm_response t) = t"
  using assms by (simp add: parse_llm_response_def default_parsed_def)

theorem parse_error_passthrough_witness:
  "(''Error: API connection failed.'' = [] \<or> py_startswith ''Error: API connection failed.'' ''Error'') \<and>
   summary (parse_llm_response ''Error: API connection failed.'') = not_available \<and>
   requirements (parse_llm_response ''Error: API connection failed.'') = not_available \<and>
   challenges (parse_llm_response ''Error: API connection failed.'') = not_available \<and>
   recommendation (parse_llm_response ''Error: API connection failed.'') = ''UNCERTAIN'' \<and>
   reasoning (parse_llm_response ''Error: API connection failed.'') = ''Error: API connection failed.''"
proof -
  have h: "''Error: API connection failed.'' = [] \<or> py_startswith ''Error: API connection failed.'' ''Error''"
    by (simp add: py_startswith_def)
  show ?thesis using h parse_error_passthrough [OF h] by blast
qed

lemma find_heading_SomeD:
  "find_heading hs l = Some (h, k) \<Longrightarrow> (h, k) \<in> set hs \<and> py_startswith (py_strip l) (heading_marker h)"
  by (induction hs l rule: find_heading.induct) (auto split: if_splits)

lemma py_strip_infix: "\<exists>a b. s = a @ py_strip s @ b"
proof -
  let ?x = "py_lstrip s"
  have "s = takeWhile py_isspace s @ ?x" by (simp add: py_lstrip_def)
  moreover have "?x = py_rstrip ?x @ rev (takeWhile py_isspace (rev ?x))"
  proof -
    have "rev ?x = takeWhile py_isspace (rev ?x) @ dropWhile py_isspace (rev ?x)" by simp
    then have "?x = rev (dropWhile py_isspace (rev ?x)) @ rev (takeWhile py_isspace (rev ?x))"
      by (metis rev_append rev_rev_ident)
    then show ?thesis by (simp add: py_rstrip_def)
  qed
  ultimately have "s = takeWhile py_isspace s @ py_strip s @ rev (takeWhile py_isspace (rev ?x))"
    by (simp add: py_strip_def)
  then show ?thesis by blast
qed

lemma heading_line_marker_in:
  "find_heading sections l = Some (h, k) \<Longrightarrow> py_in (heading_marker h) l"
proof -
  assume hk: "find_heading sections l = Some (h, k)"
  from find_heading_SomeD [OF hk] have "py_startswith (py_strip l) (heading_marker h)" by simp
  then obtain r where r: "py_strip l = heading_marker h @ r" by (auto simp: py_startswith_iff)
  obtain a b where "l = a @ py_strip l @ b" using py_strip_infix by blast
  with r have "l = a @ heading_marker h @ (r @ b)" by simp
  then show ?thesis by (auto simp: py_in_iff)
qed

lemma no_marker_no_heading:
  assumes "ci_find (heading_marker h) t = None" and "l \<in> set (py_splitlines t)"
  shows "find_heading sections l \<noteq> Some (h, k)"
proof
  assume hk: "find_heading sections l = Some (h, k)"
  obtain a b where "t = a @ l @ b" using in_set_py_splitlines [OF assms(2)] by blast
  moreover have "py_in (heading_marker h) l" using hk by (rule heading_line_marker_in)
  ultimately have "py_in (heading_marker h) t"
    by (simp add: py_in_append_left py_in_append_right)
  then have "ci_find (heading_marker h) t \<noteq> None" by (rule ci_find_occurrence)
  with assms(1) show False by contradiction
qed

lemma default_parsed_normalized [simp]:
  "normalize_recommendation default_parsed = default_parsed"
  by code_simp

text \<open>C8. A reply in which no heading marker occurs, in any letter case, parses to
  the default record (spec P6): no line opens a section, and no pattern of the
  fallback pass matches.\<close>

theorem parse_no_markers:
  assumes "t \<noteq> []" and "\<not> py_startswith t ''Error''"
    and "\<forall>h\<in>set (map fst sections). ci_find (heading_marker h) t = None"
  shows "parse_llm_response t = default_parsed"
proof -
  have nohead: "\<forall>l\<in>set (py_splitlines t). \<not> is_heading l"
  proof
    fix l assume l: "l \<in> set (py_splitlines t)"
    show "\<not> is_heading l"
    proof
      assume "is_heading l"
      then obtain h k where hk: "find_heading sections l = Some (h, k)"
        by (auto simp: is_heading_def)
      then have "h \<in> set (map fst sections)"
        by (force dest: find_heading_SomeD)
      with assms(3) have "ci_find (heading_marker h) t = None" by (rule bspec)
      from no_marker_no_heading [OF this l] hk show False by contradiction
    qed
  qed
  have scan: "scan_lines t = default_parsed"
    using scan_lines_assign [of "py_splitlines t" "[]" t] nohead by (simp add: well_blocked_def)
  have fb: "fallback_extract t default_parsed = default_parsed"
    using assms(3) by (simp add: fallback_extract_def sections_def Let_def
        re_search_between_None re_search_rest_None)
  show ?thesis
    using assms(1,2) by (simp add: parse_llm_response_def scan fb default_parsed_def [symmetric])
qed

theorem parse_no_markers_witness:
  "''This is just some random text from the LLM.'' \<noteq> [] \<and>
   \<not> py_startswith ''This is just some random text from the LLM.'' ''Error'' \<and>
   ci_find (heading_marker ''Summary'') ''This is just some random text from the LLM.'' = None \<and>
   parse_llm_response ''This is just some random text from the LLM.'' = default_parsed"
proof -
  have h1: "''This is just some random text from the LLM.'' \<noteq> []" by simp
  have h2: "\<not> py_startswith ''This is just some random text from the LLM.'' ''Error''"
    by (simp add: py_startswith_def)
  have h3: "\<forall>h\<in>set (map fst sections).
      ci_find (heading_marker h) ''This is just some random text from the LLM.'' = None"
    by code_simp
  have h4: "ci_find (heading_marker ''Summary'') ''This is just some random text from the LLM.'' = None"
    using h3 by (simp add: sections_def)
  show ?thesis using h1 h2 h4 parse_no_markers [OF h1 h2 h3] by blast
qed


lemma heading_key_unique:
  "(h, k) \<in> set sections \<Longrightarrow> (h', k) \<in> set sections \<Longrightarrow> h' = h"
  by (auto simp: sections_def)

lemma scan_lines_no_marker_default:
  assumes "ci_find (heading_marker h) t = None" and "(h, k) \<in> set sections"
  shows "get_field k (scan_lines t) = get_field k default_parsed"
proof (rule scan_lines_field_default, intro ballI allI)
  fix l h' assume l: "l \<in> set (py_splitlines t)"
  show "find_heading sections l \<noteq> Some (h', k)"
  proof
    assume hk: "find_heading sections l = Some (h', k)"
    then have "(h', k) \<in> set sections" by (auto dest: find_heading_SomeD)
    with assms(2) have "h' = h" by (simp add: heading_key_unique)
    with no_marker_no_heading [OF assms(1) l, of k] hk show False by simp
  qed
qed

lemma normalize_uncertain:
  "recommendation d = ''UNCERTAIN'' \<Longrightarrow> recommendation (normalize_recommendation d) = ''UNCERTAIN''"
proof -
  have "rec_keyword (py_upper ''UNCERTAIN'') = Some ''UNCERTAIN''" by code_simp
  then show "recommendation d = ''UNCERTAIN'' \<Longrightarrow> recommendation (normalize_recommendation d) = ''UNCERTAIN''"
    by (simp add: normalize_recommendation_def)
qed

text \<open>C9. Partial structure (spec P4): in a reply that is not an error and in which
  the markers of the challenges, recommendation and reasoning headings occur in no
  letter case, those three fields keep their defaults, whatever the other sections
  hold and whether or not the fallback pass runs.\<close>

theorem parse_partial_structure:
  assumes "t \<noteq> []" and "\<not> py_startswith t ''Error''"
    and c: "ci_find (heading_marker ''Potential Challenges'') t = None"
    and o: "ci_find (heading_marker ''Overall Recommendation'') t = None"
    and r: "ci_find (heading_marker ''Reasoning for Recommendation'') t = None"
  shows "challenges (parse_llm_response t) = not_available \<and>
    recommendation (parse_llm_response t) = ''UNCERTAIN'' \<and>
    reasoning (parse_llm_response t) = not_available"
proof -
  let ?d = "normalize_recommendation (scan_lines t)"
  have sc: "challenges (scan_lines t) = not_available"
    using scan_lines_no_marker_default [OF c, of Challenges]
    by (simp add: sections_def default_parsed_def)
  have so: "recommendation (scan_lines t) = ''UNCERTAIN''"
    using scan_lines_no_marker_default [OF o, of Recommendation]
    by (simp add: sections_def default_parsed_def)
  have sr: "reasoning (scan_lines t) = not_available"
    using scan_lines_no_marker_default [OF r, of Reasoning]
    by (simp add: sections_def default_parsed_def)
  have d: "challenges ?d = not_available \<and> recommendation ?d = ''UNCERTAIN'' \<and>
      reasoning ?d = not_available"
    using sc so sr normalize_uncertain by simp
  have fb: "challenges (fallback_extract t ?d) = challenges ?d \<and>
      recommendation (fallback_extract t ?d) = recommendation ?d \<and>
      reasoning (fallback_extract t ?d) = reasoning ?d"
    using c o r by (simp add: fallback_extract_def Let_def re_search_between_None
        re_search_rest_None split: option.split)
  show ?thesis
    using assms(1,2) d fb by (simp add: parse_llm_response_def Let_def)
qed

theorem parse_partial_structure_witness:
  "parse_llm_response ''\<newline>**Summary:**\<newline>Only summary is available.\<newline>\<newline>**Key Requirements:**\<newline>- Req A\<newline>''
   = \<lparr>summary = ''Only summary is available.'', requirements = ''- Req A'',
      challenges = not_available, recommendation = ''UNCERTAIN'', reasoning = not_available\<rparr>"
proof -
  let ?t = "''\<newline>**Summary:**\<newline>Only summary is available.\<newline>\<newline>**Key Requirements:**\<newline>- Req A\<newline>''"
  have h1: "?t \<noteq> []" by simp
  have h2: "\<not> py_startswith ?t ''Error''" by (simp add: py_startswith_def)
  have h3: "ci_find (heading_marker ''Potential Challenges'') ?t = None" by code_simp
  have h4: "ci_find (heading_marker ''Overall Recommendation'') ?t = None" by code_simp
  have h5: "ci_find (heading_marker ''Reasoning for Recommendation'') ?t = None" by code_simp
  have s: "summary (parse_llm_response ?t) = ''Only summary is available.'' \<and>
      requirements (parse_llm_response ?t) = ''- Req A''" by code_simp
  show ?thesis
    using parse_partial_structure [OF h1 h2 h3 h4 h5] s by (cases "parse_llm_response ?t") simp
qed

end
