(* ===== verification/Parser_Findings.thy ===== *)
theory Parser_Findings
  imports Parser_Properties
begin

text \<open>
  Behaviours of \<open>parse_llm_response\<close> that depart from what the specification, the
  prompt or the comments of \<open>src/app/main.py\<close> lead one to expect, each proved for
  every reply of the stated shape: the substring test for \<open>GO\<close>, the fallback pass
  that keeps an unclassified recommendation of any length, and a section without
  text stored as the empty string rather than \<open>Not available\<close>.
\<close>

subsection \<open>GO is a substring test\<close>

lemma py_upper_char_hyphen: "py_upper_char c = CHR ''-'' \<longleftrightarrow> c = CHR ''-''"
proof
  assume "py_upper_char c = CHR ''-''"
  then show "c = CHR ''-''"
    by (auto simp: py_upper_char_def Let_def char_of_eq_iff take_bit_nat_eq_self split: if_splits)
next
  assume "c = CHR ''-''"
  then show "py_upper_char c = CHR ''-''" by (simp add: py_upper_char_def)
qed

lemma py_in_single: "py_in [c] s \<longleftrightarrow> c \<in> set s"
  by (auto simp: py_in_iff in_set_conv_decomp)

lemma no_go_needs_hyphen: "py_in ''NO-GO'' (py_upper r) \<Longrightarrow> CHR ''-'' \<in> set r"
proof -
  assume "py_in ''NO-GO'' (py_upper r)"
  then obtain a b where "py_upper r = a @ ''NO-GO'' @ b" by (auto simp: py_in_iff)
  then have "CHR ''-'' \<in> set (py_upper r)" by simp
  then obtain c where "c \<in> set r" and "py_upper_char c = CHR ''-''"
    by (auto simp: py_upper_def)
  then show ?thesis by (simp add: py_upper_char_hyphen)
qed

text \<open>C10. Any recommendation whose upper-cased text contains \<open>GO\<close> and which has no
  hyphen is normalised to \<open>GO\<close>: the test \<open>"GO" in rec\<close> matches \<open>GO\<close> inside
  any word, so \<open>No go\<close>, \<open>not a good fit\<close> or \<open>decided long ago\<close> all become
  \<open>GO\<close>.\<close>

theorem normalize_go_substring:
  assumes "py_in ''GO'' (py_upper r)" and "CHR ''-'' \<notin> set r"
  shows "recommendation (normalize_recommendation (d\<lparr>recommendation := r\<rparr>)) = ''GO''"
proof -
  have "\<not> py_in ''NO-GO'' (py_upper r)" using assms(2) no_go_needs_hyphen by blast
  with assms(1) show ?thesis
    by (simp add: normalize_recommendation_def rec_keyword_def)
qed

theorem normalize_go_substring_witness:
  "py_in ''GO'' (py_upper ''Not a good fit'') \<and> CHR ''-'' \<notin> set ''Not a good fit'' \<and>
   recommendation (normalize_recommendation (default_parsed\<lparr>recommendation := ''Not a good fit''\<rparr>))
     = ''GO'' \<and>
   recommendation (parse_llm_response ''**Overall Recommendation:** No go'') = ''GO''"
proof -
  have h1: "py_in ''GO'' (py_upper ''Not a good fit'')" by code_simp
  have h2: "CHR ''-'' \<notin> set ''Not a good fit''" by simp
  have p: "recommendation (parse_llm_response ''**Overall Recommendation:** No go'') = ''GO''"
    by code_simp
  show ?thesis using h1 h2 p normalize_go_substring [OF h1 h2, of default_parsed] by blast
qed


subsection \<open>The fallback pass keeps unclassified recommendations\<close>

text \<open>C11. When the line scan finds neither a summary nor a reasoning, the fallback
  pass runs, and a recommendation it finds that names no keyword is stored stripped
  but otherwise as it is (line 159), whatever its length: the rule of lines 131-137
  that turns texts of four words or more into \<open>UNCERTAIN\<close> is not applied.\<close>

theorem fallback_keeps_unclassified_recommendation:
  assumes "t \<noteq> []" and "\<not> py_startswith t ''Error''"
    and "summary (scan_lines t) = not_available" and "reasoning (scan_lines t) = not_available"
    and "re_search_between (heading_marker ''Overall Recommendation'')
           (heading_marker ''Reasoning for Recommendation'') t = Some g"
    and "rec_keyword (py_upper (py_strip g)) = None"
  shows "recommendation (parse_llm_response t) = py_strip g"
proof -
  let ?d = "normalize_recommendation (scan_lines t)"
  have "parse_llm_response t = fallback_extract t ?d"
    using assms(1-4) by (simp add: parse_llm_response_def Let_def)
  moreover have "recommendation (fallback_extract t ?d) = py_strip g"
    using assms(5,6) by (simp add: fallback_extract_def Let_def split: option.split)
  ultimately show ?thesis by simp
qed

theorem fallback_keeps_unclassified_recommendation_witness:
  "recommendation (parse_llm_response
     ''**summary:** abc **Overall Recommendation:** we think this is not clear at all **Reasoning for Recommendation:** because'')
     = ''we think this is not clear at all'' \<and>
   length (py_split ''we think this is not clear at all'') = 8"
proof -
  let ?t = "''**summary:** abc **Overall Recommendation:** we think this is not clear at all **Reasoning for Recommendation:** because''"
  let ?g = "'' we think this is not clear at all ''"
  have h1: "?t \<noteq> []" by simp
  have h2: "\<not> py_startswith ?t ''Error''" by (simp add: py_startswith_def)
  have h3: "summary (scan_lines ?t) = not_available" by code_simp
  have h4: "reasoning (scan_lines ?t) = not_available" by code_simp
  have h5: "re_search_between (heading_marker ''Overall Recommendation'')
      (heading_marker ''Reasoning for Recommendation'') ?t = Some ?g" by code_simp
  have h6: "rec_keyword (py_upper (py_strip ?g)) = None" by code_simp
  have "py_strip ?g = ''we think this is not clear at all''" by (simp add: py_defs)
  moreover have "length (py_split ''we think this is not clear at all'') = 8" by code_simp
  ultimately show ?thesis
    using fallback_keeps_unclassified_recommendation [OF h1 h2 h3 h4 h5 h6] by simp
qed

subsection \<open>A section without text is the empty string\<close>

lemma py_strip_all_space:
  "\<forall>c\<in>set s. py_isspace c \<Longrightarrow> py_strip s = []"
  by (auto simp: py_strip_def py_lstrip_def py_rstrip_def dropWhile_eq_Nil_conv dest: set_dropWhileD)

lemma py_join_blank_chars:
  "\<forall>x\<in>set xs. x = [] \<Longrightarrow> c \<in> set (py_join nl xs) \<Longrightarrow> c = CHR 0x0A"
  by (induction nl xs rule: py_join.induct) (auto simp: nl_def)

lemma block_value_blank:
  "heading_body h l = [] \<Longrightarrow> \<forall>x\<in>set b. py_strip x = [] \<Longrightarrow> block_value h l b = []"
proof -
  assume hb: "heading_body h l = []" and b: "\<forall>x\<in>set b. py_strip x = []"
  have "\<forall>x\<in>set (heading_body h l # map py_strip b). x = []" using hb b by simp
  then have "\<forall>c\<in>set (py_join nl (heading_body h l # map py_strip b)). py_isspace c"
    using py_join_blank_chars by (fastforce simp: py_isspace_def)
  then show ?thesis by (simp add: block_value_def py_strip_all_space)
qed

lemma assign_blocks_append:
  "assign_blocks (xs @ ys) d = assign_blocks ys (assign_blocks xs d)"
  by (induction xs d rule: assign_blocks.induct) simp_all

text \<open>C12. A heading with nothing after its marker and only blank lines below it
  sets its field to the empty string, not to \<open>Not available\<close> (the flush stores
  \<open>"\n".join(buffer).strip()\<close>), when it is the last heading of that field; for the
  summary and the reasoning this is also the parsed value, since an empty field does
  not trigger the fallback pass.\<close>

theorem scan_empty_section:
  assumes "well_blocked pre (bs1 @ (h, k, l, b) # bs2)"
    and "py_splitlines t = pre @ block_lines (bs1 @ (h, k, l, b) # bs2)"
    and "heading_body h l = []" and "\<forall>x\<in>set b. py_strip x = []"
    and "\<forall>(h', k', l', b')\<in>set bs2. k' \<noteq> k"
  shows "get_field k (scan_lines t) = [] \<and>
    (k = Summary \<or> k = Reasoning \<longrightarrow> \<not> py_startswith t ''Error'' \<longrightarrow>
       get_field k (parse_llm_response t) = [])"
proof -
  let ?d = "set_field k [] (assign_blocks bs1 default_parsed)"
  have "scan_lines t = assign_blocks bs2 ?d"
    using scan_lines_assign [OF assms(1,2)] block_value_blank [OF assms(3,4)]
    by (simp add: assign_blocks_append)
  moreover have "get_field k (assign_blocks bs2 ?d) = get_field k ?d"
    using assign_blocks_frame [of k bs2 ?d] assms(5) by fastforce
  ultimately have scan: "get_field k (scan_lines t) = []" by simp
  have "t \<noteq> []"
  proof
    assume "t = []"
    then have "py_splitlines t = []" by simp
    with assms(2) show False by (simp add: block_lines_def)
  qed
  moreover have "k = Summary \<or> k = Reasoning \<Longrightarrow> \<not> py_startswith t ''Error'' \<Longrightarrow>
      parse_llm_response t = normalize_recommendation (scan_lines t)"
    using \<open>t \<noteq> []\<close> scan by (auto simp: parse_llm_response_def Let_def not_available_def)
  ultimately show ?thesis
    using scan by (cases k) auto
qed

theorem scan_empty_section_witness:
  "get_field Summary (scan_lines ''**Summary:**\<newline>  \<newline>**Reasoning for Recommendation:** fine'') = [] \<and>
   summary (parse_llm_response ''**Summary:**\<newline>  \<newline>**Reasoning for Recommendation:** fine'') = []"
proof -
  let ?t = "''**Summary:**\<newline>  \<newline>**Reasoning for Recommendation:** fine''"
  let ?bs1 = "[] :: block list"
  let ?bs2 = "[(''Reasoning for Recommendation'', Reasoning, ''**Reasoning for Recommendation:** fine'', [])]"
  have h1: "well_blocked [] (?bs1 @ (''Summary'', Summary, ''**Summary:**'', [''  '']) # ?bs2)" by code_simp
  have h2: "py_splitlines ?t = [] @ block_lines (?bs1 @ (''Summary'', Summary, ''**Summary:**'', [''  '']) # ?bs2)"
    by code_simp
  have h3: "heading_body ''Summary'' ''**Summary:**'' = []" by code_simp
  have h4: "\<forall>x\<in>set [''  '']. py_strip x = []" by code_simp
  have h5: "\<forall>(h', k', l', b')\<in>set ?bs2. k' \<noteq> Summary" by simp
  have h6: "\<not> py_startswith ?t ''Error''" by (simp add: py_startswith_def)
  show ?thesis using scan_empty_section [OF h1 h2 h3 h4 h5] h6 by simp
qed

end
