(* ===== verification/Extractor.thy ===== *)
theory Extractor
  imports PyStr
begin

text \<open>
  \<open>extract_text_from_file\<close> of \<open>src/app/main.py\<close> (lines 169-190). The libraries it
  calls are an interface: \<open>doc_env\<close> holds, for a path, what \<open>open(path).read()\<close>,
  \<open>PyPDF2.PdfReader\<close> with each page's \<open>extract_text()\<close>, and
  \<open>docx.Document(path).paragraphs\<close> return, each either a value or the message of the
  exception raised (\<open>Inl\<close>). The properties hold for every such environment.
  The extension comes from \<open>os.path.splitext\<close> and \<open>str.lower\<close>, modelled here as
  CPython computes them.
\<close>

record doc_env =
  read_text :: "path \<Rightarrow> exn_msg + string"
  pdf_pages :: "path \<Rightarrow> exn_msg + (exn_msg + string option) list"
  docx_paragraphs :: "path \<Rightarrow> exn_msg + string list"

text \<open>\<open>str.lower\<close> on code points below 256 (no Latin-1 letter has a lower-case form
  outside that range).\<close>

definition py_lower :: "string \<Rightarrow> string" where
  "py_lower s = map py_lower_char s"

text \<open>\<open>os.path.splitext(p)[1]\<close> (posixpath): the last dot of the last path
  component starts the extension, unless only dots precede it in that component.\<close>

definition py_splitext_ext :: "path \<Rightarrow> string" where
  "py_splitext_ext p =
     (let base_rev = takeWhile (\<lambda>c. c \<noteq> CHR ''/'') (rev p)
      in case dropWhile (\<lambda>c. c \<noteq> CHR ''.'') base_rev of
           [] \<Rightarrow> []
         | _ # stem_rev \<Rightarrow>
             if \<exists>c\<in>set stem_rev. c \<noteq> CHR ''.''
             then CHR ''.'' # rev (takeWhile (\<lambda>c. c \<noteq> CHR ''.'') base_rev)
             else [])"

definition file_extension :: "path \<Rightarrow> string" where
  "file_extension p = py_lower (py_splitext_ext p)"

text \<open>The PDF loop (lines 179-182): pages in order, an empty or absent page text
  contributes nothing, an exception ends the loop and the whole call.\<close>

fun pdf_text :: "(exn_msg + string option) list \<Rightarrow> string \<Rightarrow> exn_msg + string" where
  "pdf_text [] acc = Inr acc"
| "pdf_text (Inl e # ps) acc = Inl e"
| "pdf_text (Inr None # ps) acc = pdf_text ps acc"
| "pdf_text (Inr (Some t) # ps) acc = pdf_text ps (if t \<noteq> [] then acc @ t else acc)"

text \<open>The DOCX loop (lines 185-186): each paragraph's text and a newline.\<close>

fun docx_text :: "string list \<Rightarrow> string \<Rightarrow> string" where
  "docx_text [] acc = acc"
| "docx_text (p # ps) acc = docx_text ps (acc @ p @ nl)"

text \<open>The \<open>try\<close> block (lines 172-186): the text, or the exception's message.\<close>

definition extract_result :: "doc_env \<Rightarrow> path \<Rightarrow> exn_msg + string" where
  "extract_result env p =
     (let ext = file_extension p
      in if ext = ''.txt'' then read_text env p
         else if ext = ''.pdf'' then
           (case pdf_pages env p of Inl e \<Rightarrow> Inl e | Inr pages \<Rightarrow> pdf_text pages [])
         else if ext = ''.docx'' then
           (case docx_paragraphs env p of Inl e \<Rightarrow> Inl e | Inr ps \<Rightarrow> Inr (docx_text ps []))
         else Inr [])"

definition extract_error_marker :: string where
  "extract_error_marker = ''Error extracting text: ''"

definition extract_text_from_file :: "doc_env \<Rightarrow> path \<Rightarrow> string" where
  "extract_text_from_file env p =
     (case extract_result env p of Inl e \<Rightarrow> extract_error_marker @ e | Inr t \<Rightarrow> t)"

subsection \<open>The loops\<close>

fun page_str :: "exn_msg + string option \<Rightarrow> string" where
  "page_str (Inr (Some t)) = t"
| "page_str _ = []"

text \<open>The PDF loop returns the first exception raised by a page, or else the
  concatenation of the page texts.\<close>

lemma pdf_text_find:
  "pdf_text ps acc =
     (case find isl ps of Some (Inl e) \<Rightarrow> Inl e | _ \<Rightarrow> Inr (acc @ concat (map page_str ps)))"
  by (induction ps acc rule: pdf_text.induct) (auto split: option.split sum.split)

lemma docx_text_concat:
  "docx_text ps acc = acc @ concat (map (\<lambda>p. p @ nl) ps)"
  by (induction ps arbitrary: acc) simp_all

lemma extract_text_from_file_Inl [simp]:
  "extract_result env p = Inl e \<Longrightarrow> extract_text_from_file env p = extract_error_marker @ e"
  by (simp add: extract_text_from_file_def)

lemma extract_text_from_file_Inr [simp]:
  "extract_result env p = Inr t \<Longrightarrow> extract_text_from_file env p = t"
  by (simp add: extract_text_from_file_def)

lemma extract_text_from_file_txt:
  "file_extension p = ''.txt'' \<Longrightarrow> read_text env p = Inr c \<Longrightarrow> extract_text_from_file env p = c"
  by (simp add: extract_text_from_file_def extract_result_def)

lemma extract_text_from_file_other:
  "file_extension p \<notin> {''.txt'', ''.pdf'', ''.docx''} \<Longrightarrow> extract_text_from_file env p = []"
  by (simp add: extract_text_from_file_def extract_result_def)

subsection \<open>The extension\<close>

lemma py_splitext_ext_append:
  assumes "dir = [] \<or> last dir = CHR ''/''" and "CHR ''/'' \<notin> set stem"
    and "CHR ''/'' \<notin> set ext" and "CHR ''.'' \<notin> set ext" and "\<exists>c\<in>set stem. c \<noteq> CHR ''.''"
  shows "py_splitext_ext (dir @ stem @ CHR ''.'' # ext) = CHR ''.'' # ext"
proof -
  have tw: "takeWhile (\<lambda>c. c \<noteq> CHR ''/'') (rev dir) = []"
    using assms(1) by (cases dir rule: rev_cases) auto
  have base: "takeWhile (\<lambda>c. c \<noteq> CHR ''/'') (rev (dir @ stem @ CHR ''.'' # ext))
                = rev ext @ CHR ''.'' # rev stem"
    using assms(2,3) tw by (simp add: takeWhile_append)
  show ?thesis
    unfolding py_splitext_ext_def Let_def base
    using assms(4,5) by (simp add: dropWhile_append takeWhile_append)
qed


subsection \<open>Properties of the extractor\<close>

text \<open>C13: a file whose extension (lower-cased) is none of \<open>.txt\<close>, \<open>.pdf\<close>,
  \<open>.docx\<close> yields the empty text and no error, whatever the file holds.\<close>

theorem extract_unknown_extension:
  "file_extension p \<notin> {''.txt'', ''.pdf'', ''.docx''} \<Longrightarrow> extract_text_from_file env p = []"
  by (simp add: extract_text_from_file_def extract_result_def)

theorem extract_unknown_extension_witness:
  "file_extension ''uploads/notes.md'' \<notin> {''.txt'', ''.pdf'', ''.docx''} \<and>
   extract_text_from_file \<lparr>read_text = \<lambda>_. Inr ''text'', pdf_pages = \<lambda>_. Inr [],
     docx_paragraphs = \<lambda>_. Inr []\<rparr> ''uploads/notes.md'' = []"
proof -
  have h: "file_extension ''uploads/notes.md'' \<notin> {''.txt'', ''.pdf'', ''.docx''}"
    by (simp add: file_extension_def py_lower_def py_splitext_ext_def py_defs)
  show ?thesis using h extract_unknown_extension [OF h] by blast
qed

text \<open>C14: for a PDF (extension \<open>.pdf\<close> in any case) whose reader opens, the result
  is the message of the first page that raises, after \<open>Error extracting text: \<close>,
  with the text of the earlier pages discarded; if no page raises, it is the
  concatenation of the page texts in order, pages without text contributing
  nothing.\<close>

theorem extract_pdf:
  "file_extension p = ''.pdf'' \<Longrightarrow> pdf_pages env p = Inr ps \<Longrightarrow>
   extract_text_from_file env p =
     (case find isl ps of
        Some (Inl e) \<Rightarrow> extract_error_marker @ e
      | _ \<Rightarrow> concat (map page_str ps))"
  by (simp add: extract_text_from_file_def extract_result_def pdf_text_find
           split: option.split sum.split)

theorem extract_pdf_witness:
  "file_extension ''up/Report.PDF'' = ''.pdf'' \<and>
   extract_text_from_file \<lparr>read_text = \<lambda>_. Inr [], pdf_pages = \<lambda>_. Inr [Inr (Some ''Page 1''),
     Inr None, Inl ''bad xref'', Inr (Some ''Page 4'')], docx_paragraphs = \<lambda>_. Inr []\<rparr>
     ''up/Report.PDF'' = ''Error extracting text: bad xref''"
proof -
  have h: "file_extension ''up/Report.PDF'' = ''.pdf''"
    by (simp add: file_extension_def py_lower_def py_splitext_ext_def py_defs)
  show ?thesis
    using h extract_pdf [OF h, of "\<lparr>read_text = \<lambda>_. Inr [], pdf_pages = \<lambda>_. Inr [Inr (Some ''Page 1''),
     Inr None, Inl ''bad xref'', Inr (Some ''Page 4'')], docx_paragraphs = \<lambda>_. Inr []\<rparr>"]
    by (simp add: extract_error_marker_def)
qed

text \<open>C15: for a DOCX whose document opens, the result is each paragraph's text
  followed by a newline, in order.\<close>

theorem extract_docx:
  "file_extension p = ''.docx'' \<Longrightarrow> docx_paragraphs env p = Inr ps \<Longrightarrow>
   extract_text_from_file env p = concat (map (\<lambda>q. q @ nl) ps)"
  by (simp add: extract_text_from_file_def extract_result_def docx_text_concat)

theorem extract_docx_witness:
  "file_extension ''up/bid.v2.docx'' = ''.docx'' \<and>
   extract_text_from_file \<lparr>read_text = \<lambda>_. Inr [], pdf_pages = \<lambda>_. Inr [],
     docx_paragraphs = \<lambda>_. Inr [''Lot 1'', '''']\<rparr> ''up/bid.v2.docx'' = ''Lot 1\<newline>\<newline>''"
proof -
  have h: "file_extension ''up/bid.v2.docx'' = ''.docx''"
    by (simp add: file_extension_def py_lower_def py_splitext_ext_def py_defs)
  show ?thesis
    using h extract_docx [OF h, of "\<lparr>read_text = \<lambda>_. Inr [], pdf_pages = \<lambda>_. Inr [],
     docx_paragraphs = \<lambda>_. Inr [''Lot 1'', '''']\<rparr>"]
    by (simp add: nl_def)
qed

text \<open>C16: \<open>os.path.splitext\<close> takes the extension from the last dot of the last
  path component, provided some character other than a dot precedes it there; so a
  directory name with a dot does not give an extension, and the comparison is
  made on the lower-cased extension.\<close>

theorem splitext_extension:
  "dir = [] \<or> last dir = CHR ''/'' \<Longrightarrow> CHR ''/'' \<notin> set stem \<Longrightarrow> CHR ''/'' \<notin> set ext \<Longrightarrow>
   CHR ''.'' \<notin> set ext \<Longrightarrow> \<exists>c\<in>set stem. c \<noteq> CHR ''.'' \<Longrightarrow>
   file_extension (dir @ stem @ CHR ''.'' # ext) = py_lower (CHR ''.'' # ext)"
  by (simp add: file_extension_def py_splitext_ext_append)

theorem splitext_extension_witness:
  "file_extension ''a.d/.r.TXT'' = ''.txt''"
proof -
  have "file_extension (''a.d/'' @ ''.r'' @ CHR ''.'' # ''TXT'') = py_lower (CHR ''.'' # ''TXT'')"
    by (rule splitext_extension) simp_all
  then show ?thesis by (simp add: py_lower_def py_defs)
qed

text \<open>C17: the caller cannot tell a failed extraction from a text file that
  happens to start with \<open>Error extracting text: \<close>: both give the same string.\<close>

theorem extract_error_indistinguishable:
  "file_extension p = ''.txt'' \<Longrightarrow> read_text env p = Inl e \<Longrightarrow>
   read_text env' p = Inr (extract_error_marker @ e) \<Longrightarrow>
   extract_text_from_file env p = extract_text_from_file env' p"
  by (simp add: extract_text_from_file_def extract_result_def)

theorem extract_error_indistinguishable_witness:
  "extract_text_from_file \<lparr>read_text = \<lambda>_. Inl ''Permission denied'', pdf_pages = \<lambda>_. Inr [],
     docx_paragraphs = \<lambda>_. Inr []\<rparr> ''u/a.txt'' =
   extract_text_from_file \<lparr>read_text = \<lambda>_. Inr ''Error extracting text: Permission denied'',
     pdf_pages = \<lambda>_. Inr [], docx_paragraphs = \<lambda>_. Inr []\<rparr> ''u/a.txt''"
proof -
  have h: "file_extension ''u/a.txt'' = ''.txt''"
    by (simp add: file_extension_def py_lower_def py_splitext_ext_def py_defs)
  show ?thesis
    by (rule extract_error_indistinguishable [OF h]) (simp_all add: extract_error_marker_def)
qed

end
