(* ===== verification/LLM_Client.thy ===== *)
theory LLM_Client
  imports Response_Parser
begin

text \<open>
  \<open>get_llm_analysis\<close> of \<open>src/app/main.py\<close> (lines 28-74). The module-level
  \<open>openai.api_key\<close> is state passed in and returned; the completion service
  (\<open>openai.ChatCompletion.create\<close> followed by \<open>response.choices[0].message.content\<close>)
  is a function of the value of \<open>openai.api_key\<close> it reads, the model name and
  the messages, that returns the reply's content or the message of the exception
  raised on the way.
\<close>

record chat_message =
  role :: string
  content :: string

type_synonym completion_service = "string option \<Rightarrow> string \<Rightarrow> chat_message list \<Rightarrow> exn_msg + string"

text \<open>\<open>if not api_key\<close>: \<open>None\<close> and the empty string are false.\<close>

definition py_truthy :: "string option \<Rightarrow> bool" where
  "py_truthy v = (case v of None \<Rightarrow> False | Some s \<Rightarrow> s \<noteq> [])"

definition missing_key_reply :: string where
  "missing_key_reply = ''Error: OpenAI API Key is missing.''"

definition llm_error_prefix :: string where
  "llm_error_prefix = ''Error interacting with OpenAI API: ''"

definition chat_model :: string where
  "chat_model = ''gpt-3.5-turbo''"

definition system_prompt :: string where
  "system_prompt =
     ''You are an expert assistant helping to decide whether to respond to a call for tenders.''"

text \<open>The f-string of lines 35-62, line by line: the lines before \<open>{text_content}\<close>
  and the lines after it.\<close>

definition prompt_head :: "string list" where
  "prompt_head =
     [[], system_prompt,
      ''Based on the following call for tenders text, please provide your analysis in the following structured format:'',
      [], ''**Summary:**'', ''[Provide a brief summary of the project here]'',
      [], ''**Key Requirements:**'', ''- [Requirement 1]'', ''- [Requirement 2]'', ''...'',
      [], ''**Potential Challenges:**'', ''- [Challenge 1]'', ''- [Challenge 2]'', ''...'',
      [], ''**Overall Recommendation:** [GO / NO-GO / UNCERTAIN]'',
      [], ''**Reasoning for Recommendation:**'', ''[Explain your recommendation here]'',
      [], ''Call for Tenders Text:'', ''---'']"

definition prompt_tail :: "string list" where
  "prompt_tail = [''---'', ''Analysis:'', []]"

definition prompt_text :: "string \<Rightarrow> string" where
  "prompt_text t = py_join nl (prompt_head @ [t] @ prompt_tail)"

definition chat_messages :: "string \<Rightarrow> chat_message list" where
  "chat_messages t =
     [\<lparr>role = ''system'', content = system_prompt\<rparr>, \<lparr>role = ''user'', content = prompt_text t\<rparr>]"

text \<open>Lines 64-74: \<open>openai.ChatCompletion.create\<close> reads the module-level
  \<open>openai.api_key\<close>; its reply content is stripped, an exception becomes a
  prefixed message.\<close>

definition call_service :: "completion_service \<Rightarrow> string \<Rightarrow> string option \<Rightarrow> string" where
  "call_service svc text_content openai_key =
     (case svc openai_key chat_model (chat_messages text_content) of
        Inl e \<Rightarrow> llm_error_prefix @ e
      | Inr c \<Rightarrow> py_strip c)"

text \<open>The function returns the reply and the new value of \<open>openai.api_key\<close>,
  which line 33 sets before the call.\<close>

definition get_llm_analysis ::
  "completion_service \<Rightarrow> string \<Rightarrow> string option \<Rightarrow> string option \<Rightarrow> string \<times> string option" where
  "get_llm_analysis svc text_content api_key openai_key =
     (case api_key of
        None \<Rightarrow> (missing_key_reply, openai_key)
      | Some k \<Rightarrow>
          if k = [] then (missing_key_reply, openai_key)
          else (let openai_key' = Some k in (call_service svc text_content openai_key', openai_key')))"

subsection \<open>Concurrent requests\<close>

text \<open>Flask serves requests on threads, and \<open>openai.api_key\<close> is shared by all of
  them. A call of \<open>get_llm_analysis\<close> with a key touches it twice: the assignment of
  line 33 and the read inside \<open>ChatCompletion.create\<close> (line 64). A schedule is the
  sequence of these steps of the requests \<open>i\<close>, each request given by its text and
  key \<open>req i\<close>; running it yields each request's reply, in the order of the calls, and
  the final value of the global.\<close>

datatype client_step = Assign_key | Create_completion

fun run_schedule ::
  "completion_service \<Rightarrow> (nat \<Rightarrow> string \<times> string) \<Rightarrow> (nat \<times> client_step) list \<Rightarrow> string option \<Rightarrow>
   (nat \<times> string) list \<times> string option" where
  "run_schedule svc req [] g = ([], g)"
| "run_schedule svc req ((i, Assign_key) # s) g = run_schedule svc req s (Some (snd (req i)))"
| "run_schedule svc req ((i, Create_completion) # s) g =
     (case run_schedule svc req s g of
        (rs, g') \<Rightarrow> ((i, call_service svc (fst (req i)) g) # rs, g'))"

text \<open>The schedule in which the requests run one after the other.\<close>

definition serial_schedule :: "nat list \<Rightarrow> (nat \<times> client_step) list" where
  "serial_schedule is = concat (map (\<lambda>i. [(i, Assign_key), (i, Create_completion)]) is)"

subsection \<open>Properties of the client\<close>

text \<open>C18: without a key (absent or empty) the client answers
  \<open>Error: OpenAI API Key is missing.\<close>, leaves \<open>openai.api_key\<close> as it was, and
  does not consult the completion service.\<close>

theorem get_llm_analysis_missing_key:
  "\<not> py_truthy api_key \<Longrightarrow>
   get_llm_analysis svc t api_key g = (missing_key_reply, g) \<and>
   get_llm_analysis svc t api_key g = get_llm_analysis svc' t api_key g"
  by (simp add: get_llm_analysis_def Let_def py_truthy_def split: option.splits)

theorem get_llm_analysis_missing_key_witness:
  "get_llm_analysis (\<lambda>_ _ _. Inr ''GO'') ''tender'' (Some []) (Some ''sk-old'') =
     (''Error: OpenAI API Key is missing.'', Some ''sk-old'')"
proof -
  have "\<not> py_truthy (Some [])" by (simp add: py_truthy_def)
  from get_llm_analysis_missing_key [OF this, of "\<lambda>_ _ _. Inr ''GO''" "''tender''" "Some ''sk-old''"]
  show ?thesis by (simp add: missing_key_reply_def)
qed

text \<open>C19: when the service raises, the client's reply is non-empty and starts with
  \<open>Error interacting with OpenAI API\<close>, the test the route applies (line 243), and
  \<open>openai.api_key\<close> holds the key used; when the service answers, the reply is the
  content without surrounding white space.\<close>

theorem get_llm_analysis_reply:
  "k \<noteq> [] \<Longrightarrow>
   (svc (Some k) chat_model (chat_messages t) = Inl e \<longrightarrow>
      fst (get_llm_analysis svc t (Some k) g) \<noteq> [] \<and>
      py_startswith (fst (get_llm_analysis svc t (Some k) g)) ''Error interacting with OpenAI API'' \<and>
      snd (get_llm_analysis svc t (Some k) g) = Some k) \<and>
   (svc (Some k) chat_model (chat_messages t) = Inr c \<longrightarrow>
      get_llm_analysis svc t (Some k) g = (py_strip c, Some k) \<and>
      py_strip (fst (get_llm_analysis svc t (Some k) g)) = fst (get_llm_analysis svc t (Some k) g))"
  by (simp add: get_llm_analysis_def Let_def call_service_def llm_error_prefix_def py_startswith_def)

theorem get_llm_analysis_reply_witness:
  "fst (get_llm_analysis (\<lambda>_ _ _. Inl ''timeout'') ''tender'' (Some ''sk-1'') None) =
     ''Error interacting with OpenAI API: timeout'' \<and>
   get_llm_analysis (\<lambda>_ _ _. Inr '' GO  '') ''tender'' (Some ''sk-1'') None = (''GO'', Some ''sk-1'')"
proof -
  have k: "''sk-1'' \<noteq> []" by simp
  have a: "fst (get_llm_analysis (\<lambda>_ _ _. Inl ''timeout'') ''tender'' (Some ''sk-1'') None) =
     ''Error interacting with OpenAI API: timeout''"
    by (simp add: get_llm_analysis_def Let_def call_service_def llm_error_prefix_def)
  have b: "get_llm_analysis (\<lambda>_ _ _. Inr '' GO  '') ''tender'' (Some ''sk-1'') None =
     (py_strip '' GO  '', Some ''sk-1'')"
    using get_llm_analysis_reply [OF k, of "\<lambda>_ _ _. Inr '' GO  ''" "''tender''" _ "None" "'' GO  ''"]
    by simp
  show ?thesis using a b by (simp add: py_defs)
qed


lemma get_llm_analysis_Some:
  "k \<noteq> [] \<Longrightarrow> get_llm_analysis svc t (Some k) g = (call_service svc t (Some k), Some k)"
  by (simp add: get_llm_analysis_def Let_def)

lemma serial_schedule_Cons:
  "serial_schedule (i # is) = (i, Assign_key) # (i, Create_completion) # serial_schedule is"
  by (simp add: serial_schedule_def)

text \<open>C20: run one after the other, requests with non-empty keys get the replies
  that sequential calls of \<open>get_llm_analysis\<close> give, each with its own key, and the
  global ends with the last request's key.\<close>

theorem serial_schedule_sequential:
  "\<forall>i\<in>set is. snd (req i) \<noteq> [] \<Longrightarrow>
   run_schedule svc req (serial_schedule is) g =
     (map (\<lambda>i. (i, fst (get_llm_analysis svc (fst (req i)) (Some (snd (req i))) g))) is,
      if is = [] then g else Some (snd (req (last is))))"
proof (induction "is" arbitrary: g)
  case Nil
  then show ?case by (simp add: serial_schedule_def)
next
  case (Cons i "is")
  then show ?case
    by (simp add: serial_schedule_Cons get_llm_analysis_Some split: prod.split)
qed

theorem serial_schedule_sequential_witness:
  "run_schedule (\<lambda>k m msgs. Inr (case k of None \<Rightarrow> [] | Some s \<Rightarrow> s))
     (\<lambda>i. if i = 0 then (''tender A'', ''sk-A'') else (''tender B'', ''sk-B''))
     (serial_schedule [0, 1]) None = ([(0, ''sk-A''), (1, ''sk-B'')], Some ''sk-B'')"
proof -
  have "\<forall>i\<in>set [0::nat, 1].
     snd ((\<lambda>i. if i = 0 then (''tender A'', ''sk-A'') else (''tender B'', ''sk-B'')) i) \<noteq> []"
    by simp
  from serial_schedule_sequential [OF this, of "\<lambda>k m msgs. Inr (case k of None \<Rightarrow> [] | Some s \<Rightarrow> s)" None]
  show ?thesis by (simp add: get_llm_analysis_def Let_def call_service_def py_defs)
qed

end
