(* ===== verification/Web_Route.thy ===== *)
theory Web_Route
  imports Extractor LLM_Client
begin

text \<open>
  The route \<open>index\<close> of \<open>src/app/main.py\<close> (lines 192-267). The request is a record
  of its method, its \<open>api_key\<close> form field and the file name of its \<open>file\<close> part; the
  environment holds \<open>OPENAI_API_KEY\<close>, the upload folder, \<open>secure_filename\<close> and
  \<open>file.save\<close> (which may raise). The extractor and the client are parameters: the
  route's lemmas hold for any \<open>extractor\<close> and any \<open>analyze\<close> threading a state
  \<open>'g\<close>, and \<open>app_index\<close> instantiates them with \<open>extract_text_from_file\<close> and
  \<open>get_llm_analysis\<close>, whose state is \<open>openai.api_key\<close>. The result is the
  arguments of \<open>render_template\<close>, the external calls made, in order, and the new
  state.
\<close>

datatype http_method = GET | POST

record request =
  request_method :: http_method
  form_api_key :: "string option"
  file_name :: "string option"

record route_env =
  env_api_key :: "string option"
  upload_folder :: path
  secure_filename :: "string \<Rightarrow> string"
  save_file :: "path \<Rightarrow> exn_msg + unit"

datatype call = Save path | Extract path | Analyze string "string option"

record page =
  extracted_text :: "string option"
  error_message :: "string option"
  parsed_analysis :: "parsed_data option"
  api_key :: "string option"

definition key_not_found_msg :: string where
  "key_not_found_msg =
     ''OpenAI API Key not found. Please set OPENAI_API_KEY environment variable or provide it in the form.''"

definition no_file_msg :: string where
  "no_file_msg = ''No file selected or file part missing.''"

definition save_error_prefix :: string where
  "save_error_prefix = ''Error saving or processing file: ''"

definition extract_failure_marker :: string where
  "extract_failure_marker = ''Error extracting text:''"

definition llm_failure_marker :: string where
  "llm_failure_marker = ''Error interacting with OpenAI API''"

text \<open>\<open>os.path.join(a, b)\<close> (posixpath) for two components.\<close>

definition py_path_join :: "path \<Rightarrow> string \<Rightarrow> path" where
  "py_path_join a b =
     (if py_startswith b ''/'' then b
      else if a = [] \<or> last a = CHR ''/'' then a @ b
      else a @ ''/'' @ b)"

text \<open>A string-valued lookup read as a string (\<open>os.environ.get(k, '')\<close>).\<close>

definition str_or_empty :: "string option \<Rightarrow> string" where
  "str_or_empty v = (case v of None \<Rightarrow> [] | Some s \<Rightarrow> s)"

definition upload_path :: "route_env \<Rightarrow> string \<Rightarrow> path" where
  "upload_path renv fname = py_path_join (upload_folder renv) (secure_filename renv fname)"

text \<open>Lines 229-255: the file check, then inside the \<open>try\<close> the save, the extraction,
  the analysis and the parse. Only \<open>file.save\<close> raises: the extractor and the
  client catch their own exceptions and the parser raises none. The result is
  \<open>(extracted_text, error_message, parsed_analysis)\<close>, the calls and the state.\<close>

definition process_upload ::
  "route_env \<Rightarrow> (path \<Rightarrow> string) \<Rightarrow> (string \<Rightarrow> string option \<Rightarrow> 'g \<Rightarrow> string \<times> 'g) \<Rightarrow>
   string option \<Rightarrow> string option \<Rightarrow> 'g \<Rightarrow>
   (string option \<times> string option \<times> parsed_data option) \<times> call list \<times> 'g" where
  "process_upload renv extractor analyze file key g =
     (if file = None \<or> file = Some [] then ((None, Some no_file_msg, None), [], g)
      else
        (let filepath = upload_path renv (str_or_empty file)
         in case save_file renv filepath of
              Inl e \<Rightarrow> ((None, Some (save_error_prefix @ e), None), [Save filepath], g)
            | Inr _ \<Rightarrow>
                (let t = extractor filepath
                 in if t \<noteq> [] \<and> \<not> py_startswith t extract_failure_marker then
                      (let (raw, g') = analyze t key g;
                           calls = [Save filepath, Extract filepath, Analyze t key]
                       in if raw \<noteq> [] \<and> \<not> py_startswith raw llm_failure_marker
                          then ((Some t, None, Some (parse_llm_response raw)), calls, g')
                          else ((Some t, Some raw, None), calls, g'))
                    else if py_startswith t extract_failure_marker
                    then ((Some t, Some t, None), [Save filepath, Extract filepath], g)
                    else ((Some t, None, None), [Save filepath, Extract filepath], g))))"

text \<open>Lines 261-267: the page, with \<open>form_api_key if form_api_key else api_key_value\<close>.\<close>

definition render_page ::
  "string option \<times> string option \<times> parsed_data option \<Rightarrow> string option \<Rightarrow> string \<Rightarrow> page" where
  "render_page r form_key key_value =
     (case r of (et, em, pa) \<Rightarrow>
        \<lparr>extracted_text = et, error_message = em, parsed_analysis = pa,
         api_key = (if py_truthy form_key then form_key else Some key_value)\<rparr>)"

text \<open>Lines 229-267 after the key is chosen: the upload, then the page.\<close>

definition upload_and_render ::
  "route_env \<Rightarrow> (path \<Rightarrow> string) \<Rightarrow> (string \<Rightarrow> string option \<Rightarrow> 'g \<Rightarrow> string \<times> 'g) \<Rightarrow>
   request \<Rightarrow> string option \<Rightarrow> string option \<Rightarrow> string \<Rightarrow> 'g \<Rightarrow> page \<times> call list \<times> 'g" where
  "upload_and_render renv extractor analyze req form_key key key_value g =
     (let (r, calls, g') = process_upload renv extractor analyze (file_name req) key g
      in (render_page r form_key key_value, calls, g'))"

text \<open>Lines 193-267. On \<open>POST\<close> the key is the environment's unless the form gives
  one; with neither, the route returns at once (lines 211-219). On \<open>GET\<close> the page is
  rendered with no result.\<close>

definition index ::
  "route_env \<Rightarrow> (path \<Rightarrow> string) \<Rightarrow> (string \<Rightarrow> string option \<Rightarrow> 'g \<Rightarrow> string \<times> 'g) \<Rightarrow>
   request \<Rightarrow> 'g \<Rightarrow> page \<times> call list \<times> 'g" where
  "index renv extractor analyze req g =
     (let api_key_value = str_or_empty (env_api_key renv);
          form_key = (if request_method req = POST then form_api_key req else Some [])
      in if request_method req = POST then
           (if \<not> py_truthy (env_api_key renv) then
              (if py_truthy (form_api_key req)
               then upload_and_render renv extractor analyze req form_key
                      (form_api_key req) (str_or_empty (form_api_key req)) g
               else (\<lparr>extracted_text = None, error_message = Some key_not_found_msg,
                      parsed_analysis = None, api_key = form_key\<rparr>, [], g))
            else if py_truthy (form_api_key req)
            then upload_and_render renv extractor analyze req form_key
                   (form_api_key req) (str_or_empty (form_api_key req)) g
            else upload_and_render renv extractor analyze req form_key (env_api_key renv) [] g)
         else (render_page (None, None, None) form_key api_key_value, [], g))"

definition app_index ::
  "route_env \<Rightarrow> doc_env \<Rightarrow> completion_service \<Rightarrow> request \<Rightarrow> string option \<Rightarrow>
   page \<times> call list \<times> string option" where
  "app_index renv denv svc req openai_key =
     index renv (extract_text_from_file denv) (get_llm_analysis svc) req openai_key"


text \<open>The key the route hands to the client: the form's when it is non-empty, else
  the environment's.\<close>

definition selected_key :: "route_env \<Rightarrow> request \<Rightarrow> string option" where
  "selected_key renv req =
     (if py_truthy (form_api_key req) then form_api_key req else env_api_key renv)"

definition shown_key :: "request \<Rightarrow> string" where
  "shown_key req = (if py_truthy (form_api_key req) then str_or_empty (form_api_key req) else [])"

subsection \<open>The route's branches\<close>

lemma index_POST:
  "request_method req = POST \<Longrightarrow> py_truthy (selected_key renv req) \<Longrightarrow>
   index renv extractor analyze req g =
     upload_and_render renv extractor analyze req (form_api_key req) (selected_key renv req)
       (shown_key req) g"
  by (simp add: index_def selected_key_def shown_key_def Let_def split: if_splits)

lemma index_POST_no_key:
  "request_method req = POST \<Longrightarrow> \<not> py_truthy (selected_key renv req) \<Longrightarrow>
   index renv extractor analyze req g =
     (\<lparr>extracted_text = None, error_message = Some key_not_found_msg, parsed_analysis = None,
       api_key = form_api_key req\<rparr>, [], g)"
  by (simp add: index_def selected_key_def Let_def split: if_splits)

lemma process_upload_saved:
  "file = Some f \<Longrightarrow> f \<noteq> [] \<Longrightarrow> save_file renv (upload_path renv f) = Inr u \<Longrightarrow>
   process_upload renv extractor analyze file key g =
     (let p = upload_path renv f; t = extractor p
      in if t \<noteq> [] \<and> \<not> py_startswith t extract_failure_marker then
           (let (raw, g') = analyze t key g; calls = [Save p, Extract p, Analyze t key]
            in if raw \<noteq> [] \<and> \<not> py_startswith raw llm_failure_marker
               then ((Some t, None, Some (parse_llm_response raw)), calls, g')
               else ((Some t, Some raw, None), calls, g'))
         else if py_startswith t extract_failure_marker
         then ((Some t, Some t, None), [Save p, Extract p], g)
         else ((Some t, None, None), [Save p, Extract p], g))"
  by (simp add: process_upload_def str_or_empty_def Let_def)

lemma process_upload_calls:
  "\<exists>n. fst (snd (process_upload renv extractor analyze file key g)) =
     take n [Save (upload_path renv (str_or_empty file)), Extract (upload_path renv (str_or_empty file)),
             Analyze (extractor (upload_path renv (str_or_empty file))) key]"
proof -
  let ?p = "upload_path renv (str_or_empty file)"
  let ?cs = "[Save ?p, Extract ?p, Analyze (extractor ?p) key]"
  have "fst (snd (process_upload renv extractor analyze file key g)) \<in> {take 0 ?cs, take 1 ?cs, take 2 ?cs, take 3 ?cs}"
    by (simp add: process_upload_def Let_def split: sum.split prod.split)
  then show ?thesis by blast
qed



lemma render_page_shown [simp]:
  "render_page (et, em, pa) (form_api_key req) (shown_key req) =
     \<lparr>extracted_text = et, error_message = em, parsed_analysis = pa, api_key = Some (shown_key req)\<rparr>"
  by (simp add: render_page_def shown_key_def py_truthy_def str_or_empty_def split: option.split)

lemma index_upload:
  "request_method req = POST \<Longrightarrow> py_truthy (selected_key renv req) \<Longrightarrow>
   index renv extractor analyze req g =
     (case process_upload renv extractor analyze (file_name req) (selected_key renv req) g of
        ((et, em, pa), calls, g') \<Rightarrow>
          (\<lparr>extracted_text = et, error_message = em, parsed_analysis = pa,
            api_key = Some (shown_key req)\<rparr>, calls, g'))"
  by (simp add: index_POST upload_and_render_def split: prod.split)

lemma index_saved:
  "request_method req = POST \<Longrightarrow> py_truthy (selected_key renv req) \<Longrightarrow> file_name req = Some f \<Longrightarrow>
   f \<noteq> [] \<Longrightarrow> save_file renv (upload_path renv f) = Inr u \<Longrightarrow>
   index renv extractor analyze req g =
     (let p = upload_path renv f; t = extractor p; k = selected_key renv req;
          page = (\<lambda>et em pa. \<lparr>extracted_text = et, error_message = em, parsed_analysis = pa,
                                api_key = Some (shown_key req)\<rparr>)
      in if t \<noteq> [] \<and> \<not> py_startswith t extract_failure_marker then
           (case analyze t k g of (raw, g') \<Rightarrow>
              if raw \<noteq> [] \<and> \<not> py_startswith raw llm_failure_marker
              then (page (Some t) None (Some (parse_llm_response raw)), [Save p, Extract p, Analyze t k], g')
              else (page (Some t) (Some raw) None, [Save p, Extract p, Analyze t k], g'))
         else if py_startswith t extract_failure_marker
         then (page (Some t) (Some t) None, [Save p, Extract p], g)
         else (page (Some t) None None, [Save p, Extract p], g))"
  by (simp add: index_upload process_upload_saved Let_def split: prod.split)

lemma calls_upload_and_render:
  "fst (snd (upload_and_render renv extractor analyze req fk key kv g)) =
   fst (snd (process_upload renv extractor analyze (file_name req) key g))"
  by (simp add: upload_and_render_def split: prod.split)


lemma py_truthy_Some:
  "py_truthy (Some s) \<longleftrightarrow> s \<noteq> []"
  by (simp add: py_truthy_def)

lemmas route_eval = selected_key_def shown_key_def upload_path_def py_path_join_def
  str_or_empty_def py_truthy_Some extract_failure_marker_def llm_failure_marker_def
  py_startswith_def

subsection \<open>Properties of the route\<close>

text \<open>C21: a \<open>POST\<close> with no key in the environment and none in the form returns the
  key-not-found page at once: no file is saved, nothing is extracted or analysed,
  the state is unchanged, and the form's field is sent back.\<close>

theorem index_missing_key:
  "request_method req = POST \<Longrightarrow> \<not> py_truthy (env_api_key renv) \<Longrightarrow> \<not> py_truthy (form_api_key req) \<Longrightarrow>
   index renv extractor analyze req g =
     (\<lparr>extracted_text = None, error_message = Some key_not_found_msg, parsed_analysis = None,
       api_key = form_api_key req\<rparr>, [], g)"
  by (simp add: index_POST_no_key selected_key_def)

theorem index_missing_key_witness:
  "index \<lparr>env_api_key = Some [], upload_folder = ''uploads'', secure_filename = (\<lambda>s. s),
          save_file = (\<lambda>_. Inr ())\<rparr> (\<lambda>_. ''Tender text'') (\<lambda>t k n. (''**Summary:** ok'', Suc n))
     \<lparr>request_method = POST, form_api_key = None, file_name = Some ''bid.txt''\<rparr> (0::nat) =
   (\<lparr>extracted_text = None, error_message = Some key_not_found_msg, parsed_analysis = None,
     api_key = None\<rparr>, [], 0)"
  using index_missing_key [where renv = "\<lparr>env_api_key = Some [], upload_folder = ''uploads'',
      secure_filename = (\<lambda>s. s), save_file = (\<lambda>_. Inr ())\<rparr>"
    and req = "\<lparr>request_method = POST, form_api_key = None, file_name = Some ''bid.txt''\<rparr>"
    and extractor = "\<lambda>_. ''Tender text''" and analyze = "\<lambda>t k n. (''**Summary:** ok'', Suc n)"
    and g = "0::nat"]
  by (simp add: py_truthy_def)

text \<open>C22: the external calls of a request are, in this order, a prefix of: save
  the upload under the upload folder, extractor the text of the saved file, send that
  text to the client with the selected key (the form's if non-empty, else the
  environment's); and the client is only ever called with a non-empty key.\<close>

theorem index_calls_ordered:
  "\<exists>n. fst (snd (index renv extractor analyze req g)) =
     take n [Save (upload_path renv (str_or_empty (file_name req))),
             Extract (upload_path renv (str_or_empty (file_name req))),
             Analyze (extractor (upload_path renv (str_or_empty (file_name req)))) (selected_key renv req)]
   \<and> (\<forall>t k. Analyze t k \<in> set (fst (snd (index renv extractor analyze req g))) \<longrightarrow> py_truthy k)"
proof (cases "request_method req = POST \<and> py_truthy (selected_key renv req)")
  case True
  then have eq: "fst (snd (index renv extractor analyze req g)) =
      fst (snd (process_upload renv extractor analyze (file_name req) (selected_key renv req) g))"
    by (simp add: index_POST calls_upload_and_render)
  obtain n where n: "fst (snd (process_upload renv extractor analyze (file_name req) (selected_key renv req) g)) =
     take n [Save (upload_path renv (str_or_empty (file_name req))),
             Extract (upload_path renv (str_or_empty (file_name req))),
             Analyze (extractor (upload_path renv (str_or_empty (file_name req)))) (selected_key renv req)]"
    using process_upload_calls [of renv extractor analyze "file_name req" "selected_key renv req" g]
    by blast
  have "Analyze t k \<in> set (take n [Save p, Extract p, Analyze t' k']) \<Longrightarrow> k = k'" for t k t' k' p
    by (auto dest: in_set_takeD)
  then show ?thesis using True eq n by (metis (no_types, lifting))
next
  case False
  then have "fst (snd (index renv extractor analyze req g)) = []"
  proof (cases "request_method req")
    case POST
    with False show ?thesis by (simp add: index_POST_no_key)
  next
    case GET
    then show ?thesis by (simp add: index_def Let_def)
  qed
  then show ?thesis by (metis empty_iff list.set(1) take0)
qed

theorem index_calls_ordered_witness:
  "fst (snd (index \<lparr>env_api_key = Some ''sk-env'', upload_folder = ''uploads'',
       secure_filename = (\<lambda>s. s), save_file = (\<lambda>_. Inr ())\<rparr> (\<lambda>_. ''Tender text'')
       (\<lambda>t k n. (''**Summary:** ok'', Suc n))
       \<lparr>request_method = POST, form_api_key = Some ''sk-form'', file_name = Some ''bid.txt''\<rparr> (0::nat))) =
   [Save ''uploads/bid.txt'', Extract ''uploads/bid.txt'', Analyze ''Tender text'' (Some ''sk-form'')]"
proof -
  from index_calls_ordered [where renv = "\<lparr>env_api_key = Some ''sk-env'', upload_folder = ''uploads'',
       secure_filename = (\<lambda>s. s), save_file = (\<lambda>_. Inr ())\<rparr>" and extractor = "\<lambda>_. ''Tender text''"
       and analyze = "\<lambda>t k n. (''**Summary:** ok'', Suc n)"
       and req = "\<lparr>request_method = POST, form_api_key = Some ''sk-form'', file_name = Some ''bid.txt''\<rparr>"
       and g = "0::nat"]
  have "Analyze ''Tender text'' (Some ''sk-form'') \<in> set (fst (snd (index \<lparr>env_api_key = Some ''sk-env'',
       upload_folder = ''uploads'', secure_filename = (\<lambda>s. s), save_file = (\<lambda>_. Inr ())\<rparr>
       (\<lambda>_. ''Tender text'') (\<lambda>t k n. (''**Summary:** ok'', Suc n))
       \<lparr>request_method = POST, form_api_key = Some ''sk-form'', file_name = Some ''bid.txt''\<rparr> (0::nat))))
     \<longrightarrow> py_truthy (Some ''sk-form'')" by blast
  then show ?thesis
    by (simp add: index_saved route_eval Let_def)
qed


text \<open>C23: when the upload is saved, its text is neither empty nor an extraction
  error, and the client's reply is neither empty nor an API error, the page shows the
  text and the parsed reply and no error; the key field is the form's key, or empty
  when the environment's key was used.\<close>

theorem index_success:
  "request_method req = POST \<Longrightarrow> py_truthy (selected_key renv req) \<Longrightarrow> file_name req = Some f \<Longrightarrow> f \<noteq> [] \<Longrightarrow>
   save_file renv (upload_path renv f) = Inr u \<Longrightarrow> extractor (upload_path renv f) = t \<Longrightarrow>
   t \<noteq> [] \<Longrightarrow> \<not> py_startswith t extract_failure_marker \<Longrightarrow>
   analyze t (selected_key renv req) g = (raw, g') \<Longrightarrow>
   raw \<noteq> [] \<Longrightarrow> \<not> py_startswith raw llm_failure_marker \<Longrightarrow>
   index renv extractor analyze req g =
     (\<lparr>extracted_text = Some t, error_message = None,
       parsed_analysis = Some (parse_llm_response raw), api_key = Some (shown_key req)\<rparr>,
      [Save (upload_path renv f), Extract (upload_path renv f), Analyze t (selected_key renv req)], g')"
  by (simp add: index_saved Let_def)

theorem index_success_witness:
  "index \<lparr>env_api_key = Some ''sk-env'', upload_folder = ''uploads'', secure_filename = (\<lambda>s. s),
          save_file = (\<lambda>_. Inr ())\<rparr> (\<lambda>_. ''Tender text'') (\<lambda>t k n. (''**Summary:** ok'', Suc n))
     \<lparr>request_method = POST, form_api_key = Some [], file_name = Some ''bid.txt''\<rparr> (0::nat) =
   (\<lparr>extracted_text = Some ''Tender text'', error_message = None,
     parsed_analysis = Some (parse_llm_response ''**Summary:** ok''), api_key = Some []\<rparr>,
    [Save ''uploads/bid.txt'', Extract ''uploads/bid.txt'', Analyze ''Tender text'' (Some ''sk-env'')], 1)"
  using index_success [where renv = "\<lparr>env_api_key = Some ''sk-env'', upload_folder = ''uploads'',
      secure_filename = (\<lambda>s. s), save_file = (\<lambda>_. Inr ())\<rparr>"
    and req = "\<lparr>request_method = POST, form_api_key = Some [], file_name = Some ''bid.txt''\<rparr>"
    and f = "''bid.txt''" and u = "()" and extractor = "\<lambda>_. ''Tender text''" and t = "''Tender text''"
    and analyze = "\<lambda>t k n. (''**Summary:** ok'', Suc n)" and g = "0::nat"
    and raw = "''**Summary:** ok''" and g' = "1::nat"]
  by (simp add: route_eval)

text \<open>C24: when the extracted text starts with \<open>Error extracting text:\<close>, the page
  shows it as the error, with no analysis, and the client is not called.\<close>

theorem index_extract_failure:
  "request_method req = POST \<Longrightarrow> py_truthy (selected_key renv req) \<Longrightarrow> file_name req = Some f \<Longrightarrow> f \<noteq> [] \<Longrightarrow>
   save_file renv (upload_path renv f) = Inr u \<Longrightarrow> extractor (upload_path renv f) = t \<Longrightarrow>
   py_startswith t extract_failure_marker \<Longrightarrow>
   index renv extractor analyze req g =
     (\<lparr>extracted_text = Some t, error_message = Some t, parsed_analysis = None,
       api_key = Some (shown_key req)\<rparr>,
      [Save (upload_path renv f), Extract (upload_path renv f)], g)"
  by (simp add: index_saved Let_def)

theorem index_extract_failure_witness:
  "index \<lparr>env_api_key = Some ''sk-env'', upload_folder = ''uploads'', secure_filename = (\<lambda>s. s),
          save_file = (\<lambda>_. Inr ())\<rparr> (\<lambda>_. ''Error extracting text: EOF'')
     (\<lambda>t k n. (''**Summary:** ok'', Suc n))
     \<lparr>request_method = POST, form_api_key = Some ''sk-form'', file_name = Some ''bid.pdf''\<rparr> (0::nat) =
   (\<lparr>extracted_text = Some ''Error extracting text: EOF'', error_message = Some ''Error extracting text: EOF'',
     parsed_analysis = None, api_key = Some ''sk-form''\<rparr>,
    [Save ''uploads/bid.pdf'', Extract ''uploads/bid.pdf''], 0)"
  using index_extract_failure [where renv = "\<lparr>env_api_key = Some ''sk-env'', upload_folder = ''uploads'',
      secure_filename = (\<lambda>s. s), save_file = (\<lambda>_. Inr ())\<rparr>"
    and req = "\<lparr>request_method = POST, form_api_key = Some ''sk-form'', file_name = Some ''bid.pdf''\<rparr>"
    and f = "''bid.pdf''" and u = "()" and extractor = "\<lambda>_. ''Error extracting text: EOF''"
    and t = "''Error extracting text: EOF''"
    and analyze = "\<lambda>t k n. (''**Summary:** ok'', Suc n)" and g = "0::nat"]
  by (simp add: route_eval)

text \<open>C25: when the client's reply is empty or starts with
  \<open>Error interacting with OpenAI API\<close>, the page shows the reply as the error and
  no analysis; an empty reply gives an empty error message.\<close>

theorem index_llm_failure:
  "request_method req = POST \<Longrightarrow> py_truthy (selected_key renv req) \<Longrightarrow> file_name req = Some f \<Longrightarrow> f \<noteq> [] \<Longrightarrow>
   save_file renv (upload_path renv f) = Inr u \<Longrightarrow> extractor (upload_path renv f) = t \<Longrightarrow>
   t \<noteq> [] \<Longrightarrow> \<not> py_startswith t extract_failure_marker \<Longrightarrow>
   analyze t (selected_key renv req) g = (raw, g') \<Longrightarrow>
   raw = [] \<or> py_startswith raw llm_failure_marker \<Longrightarrow>
   index renv extractor analyze req g =
     (\<lparr>extracted_text = Some t, error_message = Some raw, parsed_analysis = None,
       api_key = Some (shown_key req)\<rparr>,
      [Save (upload_path renv f), Extract (upload_path renv f), Analyze t (selected_key renv req)], g')"
  by (auto simp: index_saved Let_def)

theorem index_llm_failure_witness:
  "index \<lparr>env_api_key = None, upload_folder = ''uploads/'', secure_filename = (\<lambda>s. s),
          save_file = (\<lambda>_. Inr ())\<rparr> (\<lambda>_. ''Tender text'') (\<lambda>t k n. ([], Suc n))
     \<lparr>request_method = POST, form_api_key = Some ''sk-form'', file_name = Some ''bid.txt''\<rparr> (0::nat) =
   (\<lparr>extracted_text = Some ''Tender text'', error_message = Some [], parsed_analysis = None,
     api_key = Some ''sk-form''\<rparr>,
    [Save ''uploads/bid.txt'', Extract ''uploads/bid.txt'', Analyze ''Tender text'' (Some ''sk-form'')], 1)"
  using index_llm_failure [where renv = "\<lparr>env_api_key = None, upload_folder = ''uploads/'',
      secure_filename = (\<lambda>s. s), save_file = (\<lambda>_. Inr ())\<rparr>"
    and req = "\<lparr>request_method = POST, form_api_key = Some ''sk-form'', file_name = Some ''bid.txt''\<rparr>"
    and f = "''bid.txt''" and u = "()" and extractor = "\<lambda>_. ''Tender text''" and t = "''Tender text''"
    and analyze = "\<lambda>t k n. ([], Suc n)" and g = "0::nat" and raw = "[]" and g' = "1::nat"]
  by (simp add: route_eval)

text \<open>C26: a \<open>GET\<close> renders the page with no result, makes no call, and puts the
  environment's \<open>OPENAI_API_KEY\<close> into the key field of the page (line 199 and the
  final expression of line 261; a \<open>POST\<close> that uses the environment's key sends back
  an empty field instead, as C23 shows through \<open>shown_key\<close>).\<close>

theorem index_get_shows_env_key:
  "request_method req = GET \<Longrightarrow>
   index renv extractor analyze req g =
     (\<lparr>extracted_text = None, error_message = None, parsed_analysis = None,
       api_key = Some (str_or_empty (env_api_key renv))\<rparr>, [], g)"
  by (simp add: index_def render_page_def py_truthy_def)

theorem index_get_shows_env_key_witness:
  "api_key (fst (index \<lparr>env_api_key = Some ''sk-secret'', upload_folder = ''uploads'',
     secure_filename = (\<lambda>s. s), save_file = (\<lambda>_. Inr ())\<rparr> (\<lambda>_. ''Tender text'')
     (\<lambda>t k n. (''**Summary:** ok'', Suc n))
     \<lparr>request_method = GET, form_api_key = None, file_name = None\<rparr> (0::nat))) = Some ''sk-secret''"
  using index_get_shows_env_key [where renv = "\<lparr>env_api_key = Some ''sk-secret'', upload_folder = ''uploads'',
      secure_filename = (\<lambda>s. s), save_file = (\<lambda>_. Inr ())\<rparr>"
    and req = "\<lparr>request_method = GET, form_api_key = None, file_name = None\<rparr>"
    and extractor = "\<lambda>_. ''Tender text''" and analyze = "\<lambda>t k n. (''**Summary:** ok'', Suc n)"
    and g = "0::nat"]
  by (simp add: str_or_empty_def)

text \<open>C27: when \<open>file.save\<close> raises, the page shows
  \<open>Error saving or processing file: \<close> and the message; nothing is extracted or
  analysed.\<close>

theorem index_save_failure:
  "request_method req = POST \<Longrightarrow> py_truthy (selected_key renv req) \<Longrightarrow> file_name req = Some f \<Longrightarrow> f \<noteq> [] \<Longrightarrow>
   save_file renv (upload_path renv f) = Inl e \<Longrightarrow>
   index renv extractor analyze req g =
     (\<lparr>extracted_text = None, error_message = Some (save_error_prefix @ e), parsed_analysis = None,
       api_key = Some (shown_key req)\<rparr>, [Save (upload_path renv f)], g)"
  by (simp add: index_upload process_upload_def str_or_empty_def)

theorem index_save_failure_witness:
  "index \<lparr>env_api_key = Some ''sk-env'', upload_folder = ''uploads'', secure_filename = (\<lambda>s. s),
          save_file = (\<lambda>_. Inl ''disk full'')\<rparr> (\<lambda>_. ''Tender text'') (\<lambda>t k n. (''**Summary:** ok'', Suc n))
     \<lparr>request_method = POST, form_api_key = None, file_name = Some ''bid.txt''\<rparr> (0::nat) =
   (\<lparr>extracted_text = None, error_message = Some ''Error saving or processing file: disk full'',
     parsed_analysis = None, api_key = Some []\<rparr>, [Save ''uploads/bid.txt''], 0)"
  using index_save_failure [where renv = "\<lparr>env_api_key = Some ''sk-env'', upload_folder = ''uploads'',
      secure_filename = (\<lambda>s. s), save_file = (\<lambda>_. Inl ''disk full'')\<rparr>"
    and req = "\<lparr>request_method = POST, form_api_key = None, file_name = Some ''bid.txt''\<rparr>"
    and f = "''bid.txt''" and e = "''disk full''" and extractor = "\<lambda>_. ''Tender text''"
    and analyze = "\<lambda>t k n. (''**Summary:** ok'', Suc n)" and g = "0::nat"]
  by (simp add: route_eval save_error_prefix_def)

text \<open>C28: when the extracted text is empty (an unsupported extension, an empty
  file, a PDF without text), the page has neither an analysis nor an error message,
  and the client is not called.\<close>

theorem index_empty_text:
  "request_method req = POST \<Longrightarrow> py_truthy (selected_key renv req) \<Longrightarrow> file_name req = Some f \<Longrightarrow> f \<noteq> [] \<Longrightarrow>
   save_file renv (upload_path renv f) = Inr u \<Longrightarrow> extractor (upload_path renv f) = [] \<Longrightarrow>
   index renv extractor analyze req g =
     (\<lparr>extracted_text = Some [], error_message = None, parsed_analysis = None,
       api_key = Some (shown_key req)\<rparr>,
      [Save (upload_path renv f), Extract (upload_path renv f)], g)"
  by (simp add: index_saved Let_def extract_failure_marker_def py_startswith_def)

theorem index_empty_text_witness:
  "index \<lparr>env_api_key = Some ''sk-env'', upload_folder = ''uploads'', secure_filename = (\<lambda>s. s),
          save_file = (\<lambda>_. Inr ())\<rparr> (\<lambda>_. []) (\<lambda>t k n. (''**Summary:** ok'', Suc n))
     \<lparr>request_method = POST, form_api_key = None, file_name = Some ''bid.odt''\<rparr> (0::nat) =
   (\<lparr>extracted_text = Some [], error_message = None, parsed_analysis = None, api_key = Some []\<rparr>,
    [Save ''uploads/bid.odt'', Extract ''uploads/bid.odt''], 0)"
  using index_empty_text [where renv = "\<lparr>env_api_key = Some ''sk-env'', upload_folder = ''uploads'',
      secure_filename = (\<lambda>s. s), save_file = (\<lambda>_. Inr ())\<rparr>"
    and req = "\<lparr>request_method = POST, form_api_key = None, file_name = Some ''bid.odt''\<rparr>"
    and f = "''bid.odt''" and u = "()" and extractor = "\<lambda>_. []"
    and analyze = "\<lambda>t k n. (''**Summary:** ok'', Suc n)" and g = "0::nat"]
  by (simp add: route_eval)

end
