(* ===== verification/Spec2Isabelle.thy ===== *)
theory Spec2Isabelle
  imports Parser_Findings Web_Route
begin

text \<open>
  \<^bold>\<open>A verification library for the tender-analysis application of
  \<^verbatim>\<open>src/app/main.py\<close>.\<close>

  \<^bold>\<open>The program.\<close> One Flask module. The route \<open>index\<close> (lines 192-267) reads an
  API key (environment or form), saves the uploaded file, calls
  \<open>extract_text_from_file\<close> (lines 169-190) to get its text, sends the text to the
  completion service through \<open>get_llm_analysis\<close> (lines 28-74), and turns the reply
  into five fields with \<open>parse_llm_response\<close> (lines 76-167). Failures cross these
  boundaries as strings with a recognisable prefix (\<open>Error extracting text: \<close>,
  \<open>Error interacting with OpenAI API: \<close>, \<open>Error: \<close>), never as exceptions.

  \<^bold>\<open>The theories.\<close>
  \<^item> \<open>Prelude\<close>: type names (\<open>pystr\<close>, \<open>path\<close>, \<open>exn_msg\<close>), the fact collections
    \<open>py_defs\<close> and \<open>scan_simps\<close>, generic list lemmas.
  \<^item> \<open>PyStr\<close>: the Python \<open>str\<close> built-ins the code calls (\<open>strip\<close>, \<open>startswith\<close>,
    \<open>in\<close>, \<open>upper\<close>, \<open>split\<close>, \<open>splitlines\<close>, \<open>join\<close>, \<open>replace\<close>), each as
    CPython computes it on code points below 256, with their characterisations
    (\<open>py_in_iff\<close>, \<open>py_strip_idem\<close>, \<open>py_splitlines_join\<close>, \<open>in_set_py_splitlines\<close>).
  \<^item> \<open>Regex_Search\<close>: the two \<open>re.search\<close> shapes of the fallback pass, \<open>a(.*?)b\<close> and
    \<open>a(.*)\<close> under \<open>DOTALL | IGNORECASE\<close>, as case-insensitive literal search (the
    leftmost match starts at the first occurrence of \<open>a\<close>; the lazy group ends at
    the first occurrence of \<open>b\<close> after it, the greedy one at the end of the text).
    The two searches are proved equal to the leftmost-shortest and
    leftmost-longest matches that \<open>re.search\<close> specifies (\<open>lazy_match\<close>,
    \<open>greedy_match\<close>; C32, C33).
  \<^item> \<open>Response_Parser\<close>: \<open>parse_llm_response\<close>. The dictionary is the record
    \<open>parsed_data\<close>, the loop over lines is \<open>foldl scan_line scan_init\<close> over the
    record \<open>scan_state\<close> (\<open>current_section_key\<close>, \<open>buffer\<close>, \<open>parsed\<close>), the final
    flush is \<open>flush_section\<close>, lines 123-137 are \<open>normalize_recommendation\<close> (with the
    shared keyword chain \<open>rec_keyword\<close>), lines 140-165 are \<open>fallback_extract\<close>.
  \<^item> \<open>Parser_Correctness\<close>: the block specification of the scan (\<open>well_blocked\<close>,
    \<open>block_lines\<close>, \<open>assign_blocks\<close>), its refinement by the scan (C1) and the round
    trip of a reply rendered in the requested format (C2).
  \<^item> \<open>Parser_Properties\<close>: the executable decomposition \<open>blocks_of\<close> making the scan a
    total function of the reply (\<open>scan_lines_spec\<close>), the frame property (C3), the
    scanner's reachable states as an inductive set with its buffer invariant (C4),
    the keyword chain and the range of the clean-up (C5, C6), the error short cut,
    replies without markers (spec P6) and replies with only some sections (spec P4)
    (C7-C9).
  \<^item> \<open>Parser_Findings\<close>: behaviours where the code and the spec part (C10-C12).
  \<^item> \<open>Extractor\<close>: \<open>extract_text_from_file\<close> over an interface record \<open>doc_env\<close> of the
    file, PDF and DOCX libraries (each returns a value or an exception message);
    \<open>os.path.splitext\<close> and \<open>str.lower\<close> as CPython computes them; the PDF and DOCX
    loops as \<open>pdf_text\<close> and \<open>docx_text\<close> (C13-C17).
  \<^item> \<open>LLM_Client\<close>: \<open>get_llm_analysis\<close> with the completion service as a function of the
    global \<open>openai.api_key\<close>, the model and the messages; the prompt f-string
    (\<open>prompt_head\<close>, \<open>prompt_tail\<close>); the global key as state, and schedules of the
    two steps that touch it (\<open>run_schedule\<close>) for requests served concurrently
    (C18-C20).
  \<^item> \<open>Web_Route\<close>: \<open>index\<close> as a function of the environment (\<open>route_env\<close>: the key
    variable, the upload folder, \<open>secure_filename\<close>, \<open>file.save\<close>), the extractor,
    the client (threading a state \<open>'g\<close>), the request and the state, returning the
    template arguments (\<open>page\<close>), the external calls in order (\<open>call\<close>) and the new
    state; \<open>app_index\<close> plugs in the models of the extractor and the client
    (C21-C28).
  \<^item> This theory: end-to-end properties of \<open>app_index\<close> (C29-C31).

  \<^bold>\<open>What the models show.\<close> The parser meets its block specification and
  reads back a reply in the requested format; the route makes its external calls in
  the order save, extract, analyse, and each failure reaches the page as the
  message of its stage. Departures from the spec or the comments, each proved:
  the substring test turns any recommendation with the letters \<open>GO\<close> and no hyphen
  into \<open>GO\<close> (C10); the fallback keeps an unclassified recommendation of any
  length (C11); a section without text becomes the empty string, not
  \<open>Not available\<close> (C12); a text file starting with \<open>Error extracting text:\<close> is
  taken for a failed extraction (C17, C30); a \<open>GET\<close> puts the server's
  \<open>OPENAI_API_KEY\<close> into the page (C26); an unsupported upload fails without a
  message (C31). The global \<open>openai.api_key\<close> is shared by concurrent requests;
  C20 shows that requests served one after the other each use their own key.

  \<^bold>\<open>Termination and fuel.\<close> Every loop of the program runs over a finite list
  (lines, pages, paragraphs, headings), so every definition is total: structural
  recursion, or \<open>function\<close> with a length measure (\<open>py_splitlines\<close>, \<open>py_replace\<close>,
  \<open>blocks_from\<close>). No fuel is needed.

  \<^bold>\<open>Not modelled.\<close> Flask's request handling and template rendering (the route's
  result is the tuple of arguments passed to \<open>render_template\<close>), logging, the
  upload folder's creation (lines 17-26, 269-273), the algorithm of
  \<open>secure_filename\<close> (a parameter), the contents of the saved file (the
  \<open>doc_env\<close> functions give what the libraries read from it), and the wire protocol
  of the completion service. Python \<open>str\<close> values are lists of \<open>char\<close>, so code
  points above 255 are outside the model; on code points below 256 \<open>upper\<close>
  differs from Python only on \<open>\xb5\<close>, \<open>\xdf\<close> and \<open>\xff\<close>, whose upper-case forms
  lie above 255.
\<close>

text \<open>C29: end to end, a \<open>.txt\<close> upload whose text is not empty and not an error
  marker, analysed by a service whose stripped reply is not empty and not an API
  error, yields the parse of that reply; the calls are save, extract, analyse with
  the selected key, and \<open>openai.api_key\<close> is that key afterwards.\<close>

theorem app_pipeline:
  assumes "request_method req = POST" and "selected_key renv req = Some k" and "k \<noteq> []"
    and "file_name req = Some f" and "f \<noteq> []"
    and "save_file renv (upload_path renv f) = Inr u"
    and "file_extension (upload_path renv f) = ''.txt''"
    and "read_text denv (upload_path renv f) = Inr c"
    and "c \<noteq> []" and "\<not> py_startswith c extract_failure_marker"
    and "svc (Some k) chat_model (chat_messages c) = Inr r"
    and "py_strip r \<noteq> []" and "\<not> py_startswith (py_strip r) llm_failure_marker"
  shows "app_index renv denv svc req g =
     (\<lparr>extracted_text = Some c, error_message = None,
       parsed_analysis = Some (parse_llm_response (py_strip r)), api_key = Some (shown_key req)\<rparr>,
      [Save (upload_path renv f), Extract (upload_path renv f), Analyze c (Some k)], Some k)"
proof -
  have t: "extract_text_from_file denv (upload_path renv f) = c"
    using assms(7,8) by (rule extract_text_from_file_txt)
  have a: "get_llm_analysis svc c (Some k) g = (py_strip r, Some k)"
    using assms(3,11) by (simp add: get_llm_analysis_def call_service_def Let_def)
  show ?thesis
    unfolding app_index_def
    using assms(1-6,9,10,12,13) t a py_truthy_Some by (simp add: index_saved Let_def)
qed

theorem app_pipeline_witness:
  "app_index \<lparr>env_api_key = Some ''sk-env'', upload_folder = ''uploads'', secure_filename = (\<lambda>s. s),
       save_file = (\<lambda>_. Inr ())\<rparr>
     \<lparr>read_text = (\<lambda>_. Inr ''Lot 1''), pdf_pages = (\<lambda>_. Inr []), docx_paragraphs = (\<lambda>_. Inr [])\<rparr>
     (\<lambda>k m msgs. Inr '' **Summary:** Short '')
     \<lparr>request_method = POST, form_api_key = Some [], file_name = Some ''bid.txt''\<rparr> None =
   (\<lparr>extracted_text = Some ''Lot 1'', error_message = None,
     parsed_analysis = Some (parse_llm_response ''**Summary:** Short''), api_key = Some []\<rparr>,
    [Save ''uploads/bid.txt'', Extract ''uploads/bid.txt'', Analyze ''Lot 1'' (Some ''sk-env'')],
    Some ''sk-env'')"
proof -
  have e: "file_extension ''uploads/bid.txt'' = ''.txt''"
    by (simp add: file_extension_def py_lower_def py_splitext_ext_def py_defs)
  have s: "py_strip '' **Summary:** Short '' = ''**Summary:** Short''"
    by (simp add: py_defs)
  show ?thesis
    using app_pipeline [where renv = "\<lparr>env_api_key = Some ''sk-env'', upload_folder = ''uploads'',
        secure_filename = (\<lambda>s. s), save_file = (\<lambda>_. Inr ())\<rparr>"
      and req = "\<lparr>request_method = POST, form_api_key = Some [], file_name = Some ''bid.txt''\<rparr>"
      and k = "''sk-env''" and f = "''bid.txt''" and u = "()"
      and denv = "\<lparr>read_text = (\<lambda>_. Inr ''Lot 1''), pdf_pages = (\<lambda>_. Inr []),
        docx_paragraphs = (\<lambda>_. Inr [])\<rparr>" and c = "''Lot 1''"
      and svc = "\<lambda>k m msgs. Inr '' **Summary:** Short ''" and r = "'' **Summary:** Short ''" and g = None]
    using e s by (simp add: route_eval)
qed

text \<open>C30: end to end, a \<open>.txt\<close> upload whose text starts with
  \<open>Error extracting text:\<close> is reported as an extraction error and never reaches the
  completion service, although the file was read without error.\<close>

theorem app_error_text_not_analyzed:
  assumes "request_method req = POST" and "py_truthy (selected_key renv req)"
    and "file_name req = Some f" and "f \<noteq> []"
    and "save_file renv (upload_path renv f) = Inr u"
    and "file_extension (upload_path renv f) = ''.txt''"
    and "read_text denv (upload_path renv f) = Inr c"
    and "py_startswith c extract_failure_marker"
  shows "app_index renv denv svc req g =
     (\<lparr>extracted_text = Some c, error_message = Some c, parsed_analysis = None,
       api_key = Some (shown_key req)\<rparr>,
      [Save (upload_path renv f), Extract (upload_path renv f)], g)"
proof -
  have t: "extract_text_from_file denv (upload_path renv f) = c"
    using assms(6,7) by (rule extract_text_from_file_txt)
  show ?thesis
    unfolding app_index_def using assms(1-5,8) t by (simp add: index_saved Let_def)
qed

theorem app_error_text_not_analyzed_witness:
  "app_index \<lparr>env_api_key = None, upload_folder = ''uploads'', secure_filename = (\<lambda>s. s),
       save_file = (\<lambda>_. Inr ())\<rparr>
     \<lparr>read_text = (\<lambda>_. Inr ''Error extracting text: see annex B''), pdf_pages = (\<lambda>_. Inr []),
      docx_paragraphs = (\<lambda>_. Inr [])\<rparr>
     (\<lambda>k m msgs. Inr ''**Summary:** S'')
     \<lparr>request_method = POST, form_api_key = Some ''sk-form'', file_name = Some ''notes.txt''\<rparr> None =
   (\<lparr>extracted_text = Some ''Error extracting text: see annex B'',
     error_message = Some ''Error extracting text: see annex B'', parsed_analysis = None,
     api_key = Some ''sk-form''\<rparr>,
    [Save ''uploads/notes.txt'', Extract ''uploads/notes.txt''], None)"
proof -
  have e: "file_extension ''uploads/notes.txt'' = ''.txt''"
    by (simp add: file_extension_def py_lower_def py_splitext_ext_def py_defs)
  show ?thesis
    using app_error_text_not_analyzed [where renv = "\<lparr>env_api_key = None, upload_folder = ''uploads'',
        secure_filename = (\<lambda>s. s), save_file = (\<lambda>_. Inr ())\<rparr>"
      and req = "\<lparr>request_method = POST, form_api_key = Some ''sk-form'', file_name = Some ''notes.txt''\<rparr>"
      and f = "''notes.txt''" and u = "()"
      and denv = "\<lparr>read_text = (\<lambda>_. Inr ''Error extracting text: see annex B''), pdf_pages = (\<lambda>_. Inr []),
        docx_paragraphs = (\<lambda>_. Inr [])\<rparr>" and c = "''Error extracting text: see annex B''"
      and svc = "\<lambda>k m msgs. Inr ''**Summary:** S''" and g = None]
    using e by (simp add: route_eval)
qed

text \<open>C31: end to end, an upload whose extension is not supported is saved and
  then silently dropped: the page has an empty text, no analysis and no error
  message, and the completion service is not called.\<close>

theorem app_unsupported_silent:
  assumes "request_method req = POST" and "py_truthy (selected_key renv req)"
    and "file_name req = Some f" and "f \<noteq> []"
    and "save_file renv (upload_path renv f) = Inr u"
    and "file_extension (upload_path renv f) \<notin> {''.txt'', ''.pdf'', ''.docx''}"
  shows "app_index renv denv svc req g =
     (\<lparr>extracted_text = Some [], error_message = None, parsed_analysis = None,
       api_key = Some (shown_key req)\<rparr>,
      [Save (upload_path renv f), Extract (upload_path renv f)], g)"
proof -
  have t: "extract_text_from_file denv (upload_path renv f) = []"
    using assms(6) by (rule extract_text_from_file_other)
  show ?thesis
    unfolding app_index_def using assms(1-5) t
    by (simp add: index_saved Let_def extract_failure_marker_def py_startswith_def)
qed

theorem app_unsupported_silent_witness:
  "app_index \<lparr>env_api_key = Some ''sk-env'', upload_folder = ''uploads'', secure_filename = (\<lambda>s. s),
       save_file = (\<lambda>_. Inr ())\<rparr>
     \<lparr>read_text = (\<lambda>_. Inr ''Lot 1''), pdf_pages = (\<lambda>_. Inr []), docx_paragraphs = (\<lambda>_. Inr [])\<rparr>
     (\<lambda>k m msgs. Inr ''**Summary:** S'')
     \<lparr>request_method = POST, form_api_key = None, file_name = Some ''tender.rtf''\<rparr> None =
   (\<lparr>extracted_text = Some [], error_message = None, parsed_analysis = None, api_key = Some []\<rparr>,
    [Save ''uploads/tender.rtf'', Extract ''uploads/tender.rtf''], None)"
proof -
  have e: "file_extension ''uploads/tender.rtf'' \<notin> {''.txt'', ''.pdf'', ''.docx''}"
    by (simp add: file_extension_def py_lower_def py_splitext_ext_def py_defs)
  show ?thesis
    using app_unsupported_silent [where renv = "\<lparr>env_api_key = Some ''sk-env'', upload_folder = ''uploads'',
        secure_filename = (\<lambda>s. s), save_file = (\<lambda>_. Inr ())\<rparr>"
      and req = "\<lparr>request_method = POST, form_api_key = None, file_name = Some ''tender.rtf''\<rparr>"
      and f = "''tender.rtf''" and u = "()"
      and denv = "\<lparr>read_text = (\<lambda>_. Inr ''Lot 1''), pdf_pages = (\<lambda>_. Inr []),
        docx_paragraphs = (\<lambda>_. Inr [])\<rparr>"
      and svc = "\<lambda>k m msgs. Inr ''**Summary:** S''" and g = None]
    using e by (simp add: route_eval)
qed

end
